theory Spec2Isabelle
  imports Complex_Main
begin

section \<open>Values and errors\<close>

text \<open>
  The module \<^verbatim>\<open>hdbscan/prediction.py\<close> computes on numpy arrays of 64-bit floats and
  of integers. A float is modelled by its value: a real number, one of the two
  infinities, or NaN. Rounding, overflow of finite results and the sign of zero are not
  modelled (the zero is the positive zero, as for the distances a spatial index
  returns), so \<open>1 / 0\<close> is the positive infinity, as numpy computes it for a float64
  operand (with a RuntimeWarning, not an exception). The one exception is the
  reciprocal of the resolver, whose rounding and overflow are a parameter of the
  division \<open>f64_div_rounding\<close> below.
\<close>

datatype f64 = Fin real | PInf | NInf | NaN

text \<open>
  The exceptions the module raises itself or lets escape from numpy and from dicts.
  \<open>RowNotFound\<close> is the failure of the row lookup, whose code is not part of the
  sources; the specification files it under its invalid arguments.
\<close>

datatype py_error =
  IndexError | KeyError | NameError | TypeError | ValueError string | RowNotFound

text \<open>Comparisons as IEEE has them: every comparison with NaN is false.\<close>

fun f64_lt :: "f64 \<Rightarrow> f64 \<Rightarrow> bool" where
  "f64_lt NaN b = False"
| "f64_lt a NaN = False"
| "f64_lt (Fin x) (Fin y) = (x < y)"
| "f64_lt (Fin x) PInf = True"
| "f64_lt (Fin x) NInf = False"
| "f64_lt PInf b = False"
| "f64_lt NInf NInf = False"
| "f64_lt NInf b = True"

definition f64_le :: "f64 \<Rightarrow> f64 \<Rightarrow> bool" where
  "f64_le a b = (a \<noteq> NaN \<and> b \<noteq> NaN \<and> \<not> f64_lt b a)"

definition f64_gt :: "f64 \<Rightarrow> f64 \<Rightarrow> bool" where
  "f64_gt a b = f64_lt b a"

definition f64_ge :: "f64 \<Rightarrow> f64 \<Rightarrow> bool" where
  "f64_ge a b = f64_le b a"

text \<open>Division: a finite quotient is exact; the special cases are those of IEEE.\<close>

fun f64_div :: "f64 \<Rightarrow> f64 \<Rightarrow> f64" where
  "f64_div NaN b = NaN"
| "f64_div a NaN = NaN"
| "f64_div (Fin x) (Fin y) =
     (if y = 0 then (if x = 0 then NaN else if 0 < x then PInf else NInf)
      else Fin (x / y))"
| "f64_div (Fin x) PInf = Fin 0"
| "f64_div (Fin x) NInf = Fin 0"
| "f64_div PInf (Fin y) = (if 0 \<le> y then PInf else NInf)"
| "f64_div NInf (Fin y) = (if 0 \<le> y then NInf else PInf)"
| "f64_div PInf b = NaN"
| "f64_div NInf b = NaN"

text \<open>
  The division of the hardware rounds a finite quotient to a float. How it rounds is not
  written in the module, so \<open>f64_div_rounding\<close> takes the rounding as the parameter
  \<open>rnd\<close>: the float returned for the exact quotient of two finite floats (an infinity
  where the quotient overflows). The special cases need no rounding. \<open>f64_div\<close> is this
  division on the quotients that are floats themselves, where \<open>rnd\<close> changes nothing.
\<close>

fun f64_div_rounding :: "(real \<Rightarrow> f64) \<Rightarrow> f64 \<Rightarrow> f64 \<Rightarrow> f64" where
  "f64_div_rounding rnd NaN b = NaN"
| "f64_div_rounding rnd a NaN = NaN"
| "f64_div_rounding rnd (Fin x) (Fin y) =
     (if y = 0 then (if x = 0 then NaN else if 0 < x then PInf else NInf)
      else rnd (x / y))"
| "f64_div_rounding rnd (Fin x) PInf = Fin 0"
| "f64_div_rounding rnd (Fin x) NInf = Fin 0"
| "f64_div_rounding rnd PInf (Fin y) = (if 0 \<le> y then PInf else NInf)"
| "f64_div_rounding rnd NInf (Fin y) = (if 0 \<le> y then NInf else PInf)"
| "f64_div_rounding rnd PInf b = NaN"
| "f64_div_rounding rnd NInf b = NaN"

text \<open>
  The built-in \<^verbatim>\<open>min(a, b)\<close> of Python keeps its first argument unless the second
  is smaller.
\<close>

definition py_min :: "f64 \<Rightarrow> f64 \<Rightarrow> f64" where
  "py_min a b = (if f64_lt b a then b else a)"

section \<open>The numpy operations the module uses\<close>

text \<open>
  \<^verbatim>\<open>a[i]\<close> on a one-dimensional array: a negative index counts from the end, an index
  out of range raises IndexError.
\<close>

definition np_getitem :: "'a list \<Rightarrow> int \<Rightarrow> py_error + 'a" where
  "np_getitem a i =
     (if 0 \<le> i \<and> i < int (length a) then Inr (a ! nat i)
      else if i < 0 \<and> - int (length a) \<le> i then Inr (a ! nat (int (length a) + i))
      else Inl IndexError)"

text \<open>\<^verbatim>\<open>a[idx]\<close> with an integer array \<^verbatim>\<open>idx\<close>: every index is read as above.\<close>

fun np_take :: "'a list \<Rightarrow> int list \<Rightarrow> py_error + 'a list" where
  "np_take a [] = Inr []"
| "np_take a (i # idx) =
     (case np_getitem a i of
        Inl e \<Rightarrow> Inl e
      | Inr x \<Rightarrow> (case np_take a idx of Inl e \<Rightarrow> Inl e | Inr xs \<Rightarrow> Inr (x # xs)))"

text \<open>The maximum of numpy's reductions: NaN wins over every number.\<close>

definition np_maximum :: "f64 \<Rightarrow> f64 \<Rightarrow> f64" where
  "np_maximum a b = (if a = NaN \<or> b = NaN then NaN else if f64_lt a b then b else a)"

text \<open>
  \<^verbatim>\<open>np.vstack((r0, r1, r2)).max(axis=0)\<close>: the three rows must have one length
  (ValueError otherwise); the result holds the maximum of each column.
\<close>

definition np_vstack3_max :: "f64 list \<Rightarrow> f64 list \<Rightarrow> f64 list \<Rightarrow> py_error + f64 list" where
  "np_vstack3_max r0 r1 r2 =
     (if length r0 = length r1 \<and> length r1 = length r2
      then Inr (map (\<lambda>(a, b, c). np_maximum (np_maximum a b) c) (zip r0 (zip r1 r2)))
      else Inl (ValueError ''all the input array dimensions must match exactly''))"

text \<open>
  \<^verbatim>\<open>a.argmin()\<close>: the position of the first NaN if there is one, else of the first
  occurrence of the minimum; ValueError on an empty array. The scan keeps the best
  value \<open>mp\<close> seen so far and its position, and replaces them only by a strictly
  smaller value (or a NaN).
\<close>

fun np_argmin_scan :: "f64 list \<Rightarrow> nat \<Rightarrow> f64 \<Rightarrow> nat \<Rightarrow> nat" where
  "np_argmin_scan [] i mp best = best"
| "np_argmin_scan (x # xs) i mp best =
     (if mp = NaN then best
      else if x = NaN \<or> f64_lt x mp then np_argmin_scan xs (Suc i) x i
      else np_argmin_scan xs (Suc i) mp best)"

definition np_argmin :: "f64 list \<Rightarrow> py_error + nat" where
  "np_argmin a =
     (case a of
        [] \<Rightarrow> Inl (ValueError ''attempt to get argmin of an empty sequence'')
      | x # xs \<Rightarrow> Inr (np_argmin_scan xs 1 x 0))"

section \<open>The nearest neighbour under mutual reachability\<close>

text \<open>
  Lines 148 to 155 of \<^verbatim>\<open>_find_neighbor_and_lambda\<close>: the core distances of the
  candidates, the distance at index \<^verbatim>\<open>min_samples\<close> repeated once per candidate, and
  the column maxima of the two with the raw distances.
\<close>

definition mr_distances ::
  "int list \<Rightarrow> f64 list \<Rightarrow> f64 list \<Rightarrow> int \<Rightarrow> py_error + f64 list" where
  "mr_distances neighbor_indices neighbor_distances core_distances min_samples =
     (case np_take core_distances neighbor_indices of
        Inl e \<Rightarrow> Inl e
      | Inr neighbor_core_distances \<Rightarrow>
          (case np_getitem neighbor_distances min_samples of
             Inl e \<Rightarrow> Inl e
           | Inr d \<Rightarrow>
               np_vstack3_max neighbor_core_distances
                 (replicate (length neighbor_indices) d) neighbor_distances))"

text \<open>Lines 157 to 162: the first minimum, the candidate there, and the reciprocal.\<close>

definition find_neighbor_and_lambda ::
  "int list \<Rightarrow> f64 list \<Rightarrow> f64 list \<Rightarrow> int \<Rightarrow> py_error + (int \<times> f64)" where
  "find_neighbor_and_lambda neighbor_indices neighbor_distances core_distances min_samples =
     (case mr_distances neighbor_indices neighbor_distances core_distances min_samples of
        Inl e \<Rightarrow> Inl e
      | Inr mr \<Rightarrow>
          (case np_argmin mr of
             Inl e \<Rightarrow> Inl e
           | Inr nn_index \<Rightarrow>
               Inr (neighbor_indices ! nn_index, f64_div (Fin 1) (mr ! nn_index))))"

text \<open>
  The same lines with the rounding of \<^verbatim>\<open>1. / mr_distances[nn_index]\<close> made explicit.
\<close>

definition find_neighbor_and_lambda_rounding ::
  "(real \<Rightarrow> f64) \<Rightarrow> int list \<Rightarrow> f64 list \<Rightarrow> f64 list \<Rightarrow> int \<Rightarrow> py_error + (int \<times> f64)" where
  "find_neighbor_and_lambda_rounding rnd neighbor_indices neighbor_distances core_distances
       min_samples =
     (case mr_distances neighbor_indices neighbor_distances core_distances min_samples of
        Inl e \<Rightarrow> Inl e
      | Inr mr \<Rightarrow>
          (case np_argmin mr of
             Inl e \<Rightarrow> Inl e
           | Inr nn_index \<Rightarrow>
               Inr (neighbor_indices ! nn_index,
                    f64_div_rounding rnd (Fin 1) (mr ! nn_index))))"

section \<open>The condensed tree\<close>

text \<open>
  The raw condensed tree is a one-dimensional numpy array of records, read by field name
  throughout the module.
\<close>

record tree_row =
  parent :: int
  child :: int
  lambda_val :: f64
  child_size :: int

text \<open>
  Modelled from the spec: \<^verbatim>\<open>get_tree_row_with_child\<close> is imported from
  \<^verbatim>\<open>_prediction_utils\<close>, which is not among the sources. The specification has it
  locate the record whose child is the given id and fail (InvalidArgument) when there
  is none. The functions below take the lookup as their first argument
  \<open>row_with_child\<close>; this definition is the instance used to run them.
\<close>

definition get_tree_row_with_child :: "tree_row list \<Rightarrow> int \<Rightarrow> py_error + tree_row" where
  "get_tree_row_with_child tree c =
     (case filter (\<lambda>r. child r = c) tree of
        [] \<Rightarrow> Inl RowNotFound
      | r # rs \<Rightarrow> Inr r)"

text \<open>\<^verbatim>\<open>a.min()\<close> on an array of integers: ValueError on an empty array.\<close>

definition np_min :: "int list \<Rightarrow> py_error + int" where
  "np_min a =
     (case a of
        [] \<Rightarrow> Inl (ValueError ''zero-size array to reduction operation minimum which has no identity'')
      | x # xs \<Rightarrow> Inr (fold min xs x))"

text \<open>
  The truth value of an array of booleans, as \<^verbatim>\<open>while\<close> and \<^verbatim>\<open>and\<close> ask for it:
  the element of a one-element array, false for an empty array (with a
  DeprecationWarning in the numpy releases that still have \<^verbatim>\<open>np.int\<close>, which line 350
  needs), ValueError for a longer one.
\<close>

definition np_truth :: "bool list \<Rightarrow> py_error + bool" where
  "np_truth bs =
     (case bs of
        [] \<Rightarrow> Inr False
      | b # rest \<Rightarrow>
          (if rest = [] then Inr b
           else Inl (ValueError ''The truth value of an array with more than one element is ambiguous'')))"

text \<open>
  The loop of lines 214 to 218, and again of lines 276 to 280 on the cluster tree:
  \<^verbatim>\<open>while potential_cluster > tree_root and
        tree[tree['child'] == potential_cluster]['lambda_val'] >= lambda_:
    potential_cluster = tree['parent'][tree['child'] == potential_cluster][0]\<close>
  Nothing bounds the number of rounds on an arbitrary array (a row may name itself as
  its parent), so the loop is a partial function: \<open>None\<close> is the run that never ends.
\<close>

partial_function (option) ascend ::
  "tree_row list \<Rightarrow> int \<Rightarrow> f64 \<Rightarrow> int \<Rightarrow> (py_error + int) option" where
  "ascend tree tree_root lam potential_cluster =
     (if potential_cluster > tree_root then
        (case np_truth (map (\<lambda>r. f64_ge (lambda_val r) lam)
                 (filter (\<lambda>r. child r = potential_cluster) tree)) of
           Inl e \<Rightarrow> Some (Inl e)
         | Inr b \<Rightarrow>
             (if b then
                (case np_getitem (map parent (filter (\<lambda>r. child r = potential_cluster) tree)) 0 of
                   Inl e \<Rightarrow> Some (Inl e)
                 | Inr p \<Rightarrow> ascend tree tree_root lam p)
              else Some (Inr potential_cluster)))
      else Some (Inr potential_cluster))"

section \<open>Extending the condensed tree\<close>

text \<open>
  Lines 197 to 220 of \<^verbatim>\<open>_extend_condensed_tree\<close>: the tuple \<^verbatim>\<open>new_tree_row\<close>, in the
  order the source writes it.
\<close>

definition new_tree_row ::
  "(tree_row list \<Rightarrow> int \<Rightarrow> py_error + tree_row) \<Rightarrow> tree_row list \<Rightarrow> int list \<Rightarrow> f64 list \<Rightarrow>
     f64 list \<Rightarrow> int \<Rightarrow> (py_error + (int \<times> int \<times> int \<times> f64)) option" where
  "new_tree_row row_with_child tree neighbor_indices neighbor_distances core_distances min_samples =
     (case np_min (map parent tree) of
        Inl e \<Rightarrow> Some (Inl e)
      | Inr tree_root \<Rightarrow>
     (case find_neighbor_and_lambda neighbor_indices neighbor_distances core_distances min_samples of
        Inl e \<Rightarrow> Some (Inl e)
      | Inr (nearest_neighbor, lam) \<Rightarrow>
     (case row_with_child tree nearest_neighbor of
        Inl e \<Rightarrow> Some (Inl e)
      | Inr neighbor_tree_row \<Rightarrow>
          (if f64_le (lambda_val neighbor_tree_row) lam
           then Some (Inr (parent neighbor_tree_row, - 1, 1, lambda_val neighbor_tree_row))
           else
             (case ascend tree tree_root lam (parent neighbor_tree_row) of
                None \<Rightarrow> None
              | Some (Inl e) \<Rightarrow> Some (Inl e)
              | Some (Inr potential_cluster) \<Rightarrow> Some (Inr (potential_cluster, - 1, 1, lam)))))))"

text \<open>
  Line 222, \<^verbatim>\<open>np.append(tree, new_tree_row)\<close>. With no axis, numpy's append flattens
  its second argument and concatenates: the tuple becomes an array of four floats, not
  one record. An array of records and an array of floats have no common element type,
  and numpy refuses to concatenate them (TypeError, invalid type promotion).
\<close>

datatype ndarray = RecordArray "tree_row list" | FloatArray "f64 list"

definition np_ravel :: "int \<times> int \<times> int \<times> f64 \<Rightarrow> ndarray" where
  "np_ravel values =
     (case values of (a, b, c, d) \<Rightarrow> FloatArray [Fin (of_int a), Fin (of_int b), Fin (of_int c), d])"

fun np_concatenate :: "ndarray \<Rightarrow> ndarray \<Rightarrow> py_error + ndarray" where
  "np_concatenate (RecordArray a) (RecordArray b) = Inr (RecordArray (a @ b))"
| "np_concatenate (FloatArray a) (FloatArray b) = Inr (FloatArray (a @ b))"
| "np_concatenate (RecordArray a) (FloatArray b) = Inl TypeError"
| "np_concatenate (FloatArray a) (RecordArray b) = Inl TypeError"

definition np_append :: "ndarray \<Rightarrow> int \<times> int \<times> int \<times> f64 \<Rightarrow> py_error + ndarray" where
  "np_append arr values = np_concatenate arr (np_ravel values)"

definition extend_condensed_tree ::
  "(tree_row list \<Rightarrow> int \<Rightarrow> py_error + tree_row) \<Rightarrow> tree_row list \<Rightarrow> int list \<Rightarrow> f64 list \<Rightarrow>
     f64 list \<Rightarrow> int \<Rightarrow> (py_error + ndarray) option" where
  "extend_condensed_tree row_with_child tree neighbor_indices neighbor_distances core_distances
       min_samples =
     (case new_tree_row row_with_child tree neighbor_indices neighbor_distances core_distances
             min_samples of
        None \<Rightarrow> None
      | Some (Inl e) \<Rightarrow> Some (Inl e)
      | Some (Inr row) \<Rightarrow> Some (np_append (RecordArray tree) row))"

section \<open>Cluster label and membership probability\<close>

text \<open>
  The object \<^verbatim>\<open>tree\<close> handed to \<^verbatim>\<open>_find_cluster_and_probability\<close> is a CondensedTree;
  the module reads its attribute \<^verbatim>\<open>_raw_tree\<close> and, in the constructor of
  PredictionData, calls its methods \<^verbatim>\<open>_select_clusters()\<close> and \<^verbatim>\<open>to_numpy()\<close>. The
  class is not among the sources: the record holds the attribute and what the two
  calls give.
\<close>

record CondensedTree =
  raw_tree :: "tree_row list"
  select_clusters :: "py_error + int list"
  to_numpy :: "py_error + tree_row list"

text \<open>
  Lines 262 to 280: the node the new point falls into, together with the lambda of the
  point. The climb runs on the cluster tree, the lookup of the neighbour on the raw tree.
\<close>

definition enclosing_node ::
  "(tree_row list \<Rightarrow> int \<Rightarrow> py_error + tree_row) \<Rightarrow> CondensedTree \<Rightarrow> tree_row list \<Rightarrow> int list \<Rightarrow>
     f64 list \<Rightarrow> f64 list \<Rightarrow> int \<Rightarrow> (py_error + (int \<times> f64)) option" where
  "enclosing_node row_with_child tree cluster_tree neighbor_indices neighbor_distances
       core_distances min_samples =
     (case np_min (map parent cluster_tree) of
        Inl e \<Rightarrow> Some (Inl e)
      | Inr tree_root \<Rightarrow>
     (case find_neighbor_and_lambda neighbor_indices neighbor_distances core_distances min_samples of
        Inl e \<Rightarrow> Some (Inl e)
      | Inr (nearest_neighbor, lam) \<Rightarrow>
     (case row_with_child (raw_tree tree) nearest_neighbor of
        Inl e \<Rightarrow> Some (Inl e)
      | Inr neighbor_tree_row \<Rightarrow>
          (if f64_gt (lambda_val neighbor_tree_row) lam
           then
             (case ascend cluster_tree tree_root lam (parent neighbor_tree_row) of
                None \<Rightarrow> None
              | Some (Inl e) \<Rightarrow> Some (Inl e)
              | Some (Inr potential_cluster) \<Rightarrow> Some (Inr (potential_cluster, lam)))
           else Some (Inr (parent neighbor_tree_row, lam))))))"

text \<open>
  Lines 282 to 298: the label from the cluster map, the probability from the largest
  lambda of the cluster. Reading \<^verbatim>\<open>max_lambdas\<close> at a missing key is a KeyError.
\<close>

definition label_and_probability ::
  "(int \<rightharpoonup> int) \<Rightarrow> (int \<rightharpoonup> f64) \<Rightarrow> int \<Rightarrow> f64 \<Rightarrow> py_error + (int \<times> f64)" where
  "label_and_probability cluster_map max_lambdas potential_cluster lam =
     (let cluster_label = (case cluster_map potential_cluster of Some l \<Rightarrow> l | None \<Rightarrow> - 1)
      in if cluster_label \<ge> 0 then
           (case max_lambdas potential_cluster of
              None \<Rightarrow> Inl KeyError
            | Some max_lambda \<Rightarrow>
                (if f64_gt max_lambda (Fin 0)
                 then Inr (cluster_label, f64_div (py_min max_lambda lam) max_lambda)
                 else Inr (cluster_label, Fin 1)))
         else Inr (cluster_label, Fin 0))"

definition find_cluster_and_probability ::
  "(tree_row list \<Rightarrow> int \<Rightarrow> py_error + tree_row) \<Rightarrow> CondensedTree \<Rightarrow> tree_row list \<Rightarrow> int list \<Rightarrow>
     f64 list \<Rightarrow> f64 list \<Rightarrow> (int \<rightharpoonup> int) \<Rightarrow> (int \<rightharpoonup> f64) \<Rightarrow> int \<Rightarrow>
     (py_error + (int \<times> f64)) option" where
  "find_cluster_and_probability row_with_child tree cluster_tree neighbor_indices
       neighbor_distances core_distances cluster_map max_lambdas min_samples =
     (case enclosing_node row_with_child tree cluster_tree neighbor_indices neighbor_distances
             core_distances min_samples of
        None \<Rightarrow> None
      | Some (Inl e) \<Rightarrow> Some (Inl e)
      | Some (Inr (potential_cluster, lam)) \<Rightarrow>
          Some (label_and_probability cluster_map max_lambdas potential_cluster lam))"

section \<open>Prediction for a batch of points\<close>

text \<open>
  A two-dimensional array: its rows, and the length of a row (\<^verbatim>\<open>shape[1]\<close>), which
  an array without rows still has.
\<close>

record 'a array2d =
  shape1 :: nat
  rows :: "'a list list"

text \<open>
  The attributes of PredictionData that prediction reads. The space tree (KDTree or
  BallTree of sklearn) is its method \<^verbatim>\<open>query(points, k)\<close>, which gives the distances
  and the indices of the neighbours, or raises.
\<close>

type_synonym space_tree = "f64 array2d \<Rightarrow> int \<Rightarrow> py_error + (f64 array2d \<times> int array2d)"

record PredictionData =
  pd_raw_data :: "f64 array2d"
  pd_tree :: space_tree
  pd_core_distances :: "f64 list"
  pd_cluster_map :: "int \<rightharpoonup> int"
  pd_cluster_tree :: "tree_row list"
  pd_max_lambdas :: "int \<rightharpoonup> f64"

text \<open>The clusterer: \<^verbatim>\<open>prediction_data_\<close> is None until prediction data is generated.\<close>

record HDBSCAN =
  hd_prediction_data :: "PredictionData option"
  hd_condensed_tree :: CondensedTree
  hd_min_samples :: "int option"
  hd_min_cluster_size :: int

text \<open>
  \<^verbatim>\<open>clusterer.min_samples or clusterer.min_cluster_size\<close>: the second when the first is
  None or zero.
\<close>

definition min_samples_or_size :: "HDBSCAN \<Rightarrow> int" where
  "min_samples_or_size clusterer =
     (case hd_min_samples clusterer of
        None \<Rightarrow> hd_min_cluster_size clusterer
      | Some m \<Rightarrow> (if m = 0 then hd_min_cluster_size clusterer else m))"

text \<open>
  The loop of lines 358 to 370, over the positions still to do; the labels and
  probabilities found so far are carried along. The first point that fails ends the run.
\<close>

fun predict_points ::
  "(tree_row list \<Rightarrow> int \<Rightarrow> py_error + tree_row) \<Rightarrow> HDBSCAN \<Rightarrow> PredictionData \<Rightarrow> int \<Rightarrow>
     f64 array2d \<Rightarrow> int array2d \<Rightarrow> nat list \<Rightarrow> int list \<Rightarrow> f64 list \<Rightarrow>
     (py_error + (int list \<times> f64 list)) option" where
  "predict_points row_with_child clusterer pd min_samples neighbor_distances neighbor_indices
       [] labels probabilities = Some (Inr (labels, probabilities))"
| "predict_points row_with_child clusterer pd min_samples neighbor_distances neighbor_indices
       (i # todo) labels probabilities =
     (case np_getitem (rows neighbor_indices) (int i) of
        Inl e \<Rightarrow> Some (Inl e)
      | Inr indices_i \<Rightarrow>
     (case np_getitem (rows neighbor_distances) (int i) of
        Inl e \<Rightarrow> Some (Inl e)
      | Inr distances_i \<Rightarrow>
     (case find_cluster_and_probability row_with_child (hd_condensed_tree clusterer)
             (pd_cluster_tree pd) indices_i distances_i (pd_core_distances pd)
             (pd_cluster_map pd) (pd_max_lambdas pd) min_samples of
        None \<Rightarrow> None
      | Some (Inl e) \<Rightarrow> Some (Inl e)
      | Some (Inr (label, prob)) \<Rightarrow>
          predict_points row_with_child clusterer pd min_samples neighbor_distances
            neighbor_indices todo (labels @ [label]) (probabilities @ [prob]))))"

text \<open>
  Lines 350 to 372: what \<^verbatim>\<open>approximate_predict\<close> does once its two checks have passed.
\<close>

definition predict_checked ::
  "(tree_row list \<Rightarrow> int \<Rightarrow> py_error + tree_row) \<Rightarrow> HDBSCAN \<Rightarrow> PredictionData \<Rightarrow> f64 array2d \<Rightarrow>
     (py_error + (int list \<times> f64 list)) option" where
  "predict_checked row_with_child clusterer pd points_to_predict =
     (let min_samples = min_samples_or_size clusterer
      in case pd_tree pd points_to_predict (2 * min_samples) of
           Inl e \<Rightarrow> Some (Inl e)
         | Inr (neighbor_distances, neighbor_indices) \<Rightarrow>
             predict_points row_with_child clusterer pd min_samples neighbor_distances
               neighbor_indices [0..<length (rows points_to_predict)] [] [])"

definition no_prediction_data :: string where
  "no_prediction_data = ''Clusterer does not have prediction data! Try fitting with prediction_data=True set, or run generate_preiction_data on the clusterer''"

definition dimension_mismatch :: string where
  "dimension_mismatch = ''New points dimension does not match fit data!''"

definition approximate_predict ::
  "(tree_row list \<Rightarrow> int \<Rightarrow> py_error + tree_row) \<Rightarrow> HDBSCAN \<Rightarrow> f64 array2d \<Rightarrow>
     (py_error + (int list \<times> f64 list)) option" where
  "approximate_predict row_with_child clusterer points_to_predict =
     (case hd_prediction_data clusterer of
        None \<Rightarrow> Some (Inl (ValueError no_prediction_data))
      | Some pd \<Rightarrow>
          (if shape1 points_to_predict \<noteq> shape1 (pd_raw_data pd)
           then Some (Inl (ValueError dimension_mismatch))
           else predict_checked row_with_child clusterer pd points_to_predict))"

section \<open>Building the prediction data\<close>

text \<open>
  \<^verbatim>\<open>_clusters_below\<close>: the clusters at and below a cluster, level by level. The loop
  ends only when a level is empty, which an arbitrary array need not reach.
\<close>

partial_function (option) clusters_below_loop ::
  "tree_row list \<Rightarrow> int list \<Rightarrow> int list \<Rightarrow> int list option" where
  "clusters_below_loop cluster_tree result to_process =
     (if to_process = [] then Some result
      else clusters_below_loop cluster_tree (result @ to_process)
             (map child (filter (\<lambda>r. parent r \<in> set to_process) cluster_tree)))"

definition clusters_below :: "tree_row list \<Rightarrow> int \<Rightarrow> int list option" where
  "clusters_below cluster_tree cluster = clusters_below_loop cluster_tree [] [cluster]"

text \<open>A \<^verbatim>\<open>for\<close> loop over a list, threading the state; it stops at the first failure.\<close>

fun for_each ::
  "('s \<Rightarrow> 'a \<Rightarrow> (py_error + 's) option) \<Rightarrow> 'a list \<Rightarrow> 's \<Rightarrow> (py_error + 's) option" where
  "for_each body [] s = Some (Inr s)"
| "for_each body (x # xs) s =
     (case body s x of
        None \<Rightarrow> None
      | Some (Inl e) \<Rightarrow> Some (Inl e)
      | Some (Inr s') \<Rightarrow> for_each body xs s')"

text \<open>\<^verbatim>\<open>a.max()\<close> on an array of floats: ValueError on an empty array.\<close>

definition np_max :: "f64 list \<Rightarrow> py_error + f64" where
  "np_max a =
     (case a of
        [] \<Rightarrow> Inl (ValueError ''zero-size array to reduction operation maximum which has no identity'')
      | x # xs \<Rightarrow> Inr (fold np_maximum xs x))"

text \<open>\<^verbatim>\<open>a[:, -1]\<close>: the last column; IndexError when the rows are empty.\<close>

definition np_last_column :: "'a array2d \<Rightarrow> py_error + 'a list" where
  "np_last_column a = (if shape1 a = 0 then Inl IndexError else Inr (map last (rows a)))"

text \<open>
  \<^verbatim>\<open>a[:, :2]\<close> on the cluster tree. The array of records has one dimension, and two
  subscripts are one too many for it: numpy raises IndexError whatever the array holds.
\<close>

definition np_getitem_2d :: "tree_row list \<Rightarrow> py_error + int list" where
  "np_getitem_2d a = Inl IndexError"

text \<open>\<^verbatim>\<open>a.max()\<close> on an array of records: numpy has no maximum of records (TypeError).\<close>

definition np_max_records :: "tree_row list \<Rightarrow> py_error + f64" where
  "np_max_records a = Inl TypeError"

text \<open>Lines 98 to 100: the loop that fills \<^verbatim>\<open>leaf_max_lambdas\<close>.\<close>

definition leaf_max_lambdas_loop ::
  "tree_row list \<Rightarrow> tree_row list \<Rightarrow> (py_error + (int \<rightharpoonup> f64)) option" where
  "leaf_max_lambdas_loop cluster_tree raw_condensed_tree =
     (case np_getitem_2d cluster_tree of
        Inl e \<Rightarrow> Some (Inl e)
      | Inr ids \<Rightarrow>
          for_each
            (\<lambda>leaf_max_lambdas cluster.
               case np_max_records (filter (\<lambda>r. parent r = cluster) raw_condensed_tree) of
                 Inl e \<Rightarrow> Some (Inl e)
               | Inr m \<Rightarrow> Some (Inr (leaf_max_lambdas(cluster \<mapsto> m))))
            (remdups ids) Map.empty)"

text \<open>
  Lines 108 to 113, the body of the inner loop. The two dict entries are written, the
  exemplar points are selected, and line 113 reads the name \<^verbatim>\<open>exemplars\<close>, which no
  line of the module binds: NameError.
\<close>

definition sub_cluster_body ::
  "(int \<rightharpoonup> f64) \<Rightarrow> int \<Rightarrow> (int \<rightharpoonup> int) \<times> (int \<rightharpoonup> f64) \<Rightarrow> int \<Rightarrow>
     py_error + ((int \<rightharpoonup> int) \<times> (int \<rightharpoonup> f64))" where
  "sub_cluster_body leaf_max_lambdas cluster state sub_cluster =
     (case state of (cluster_map, max_lambdas) \<Rightarrow>
        (case cluster_map cluster of
           None \<Rightarrow> Inl KeyError
         | Some label \<Rightarrow>
        (case max_lambdas cluster of
           None \<Rightarrow> Inl KeyError
         | Some max_lambda \<Rightarrow>
        (case leaf_max_lambdas cluster of
           None \<Rightarrow> Inl KeyError
         | Some leaf_max_lambda \<Rightarrow> Inl NameError))))"

text \<open>Lines 103 to 113, the body of the loop over the selected clusters.\<close>

definition cluster_body ::
  "(int \<rightharpoonup> f64) \<Rightarrow> tree_row list \<Rightarrow> tree_row list \<Rightarrow> (int \<rightharpoonup> int) \<times> (int \<rightharpoonup> f64) \<Rightarrow> int \<Rightarrow>
     (py_error + ((int \<rightharpoonup> int) \<times> (int \<rightharpoonup> f64))) option" where
  "cluster_body leaf_max_lambdas raw_condensed_tree cluster_tree state cluster =
     (case state of (cluster_map, max_lambdas) \<Rightarrow>
        (case np_max (map lambda_val (filter (\<lambda>r. parent r = cluster) raw_condensed_tree)) of
           Inl e \<Rightarrow> Some (Inl e)
         | Inr m \<Rightarrow>
             (case clusters_below cluster_tree cluster of
                None \<Rightarrow> None
              | Some sub_clusters \<Rightarrow>
                  for_each (\<lambda>s sub_cluster. Some (sub_cluster_body leaf_max_lambdas cluster s sub_cluster))
                    sub_clusters (cluster_map, max_lambdas(cluster \<mapsto> m)))))"

text \<open>
  Lines 102 to 115: the loop over the selected clusters, and the last line, which
  reads \<^verbatim>\<open>exemplars\<close> once more.
\<close>

definition collect_clusters ::
  "(int \<rightharpoonup> f64) \<Rightarrow> tree_row list \<Rightarrow> tree_row list \<Rightarrow> (int \<rightharpoonup> int) \<Rightarrow> int list \<Rightarrow>
     (py_error + PredictionData) option" where
  "collect_clusters leaf_max_lambdas raw_condensed_tree cluster_tree cluster_map selected_clusters =
     (case for_each (cluster_body leaf_max_lambdas raw_condensed_tree cluster_tree)
             selected_clusters (cluster_map, Map.empty) of
        None \<Rightarrow> None
      | Some (Inl e) \<Rightarrow> Some (Inl e)
      | Some (Inr state) \<Rightarrow> Some (Inl NameError))"

text \<open>
  \<^verbatim>\<open>_tree_type_map\<close>; the two classes of sklearn are the constructors \<open>KDTree\<close> and
  \<open>BallTree\<close>, taken as arguments.
\<close>

definition tree_type_map :: "'t \<Rightarrow> 't \<Rightarrow> string \<rightharpoonup> 't" where
  "tree_type_map KDTree BallTree tree_type =
     (if tree_type = ''kdtree'' then Some KDTree
      else if tree_type = ''balltree'' then Some BallTree
      else None)"

text \<open>\<^verbatim>\<open>PredictionData.__init__\<close>, lines 81 to 115.\<close>

definition PredictionData_init ::
  "(f64 array2d \<Rightarrow> string \<Rightarrow> py_error + space_tree) \<Rightarrow>
   (f64 array2d \<Rightarrow> string \<Rightarrow> py_error + space_tree) \<Rightarrow>
   f64 array2d \<Rightarrow> CondensedTree \<Rightarrow> int \<Rightarrow> string \<Rightarrow> string \<Rightarrow> (py_error + PredictionData) option" where
  "PredictionData_init KDTree BallTree data condensed_tree min_samples tree_type metric =
     (case tree_type_map KDTree BallTree tree_type of
        None \<Rightarrow> Some (Inl KeyError)
      | Some make_tree \<Rightarrow>
     (case make_tree data metric of
        Inl e \<Rightarrow> Some (Inl e)
      | Inr tree \<Rightarrow>
     (case tree data min_samples of
        Inl e \<Rightarrow> Some (Inl e)
      | Inr (distances, indices) \<Rightarrow>
     (case np_last_column distances of
        Inl e \<Rightarrow> Some (Inl e)
      | Inr core_distances \<Rightarrow>
     (case select_clusters condensed_tree of
        Inl e \<Rightarrow> Some (Inl e)
      | Inr selected_clusters \<Rightarrow>
     (case to_numpy condensed_tree of
        Inl e \<Rightarrow> Some (Inl e)
      | Inr raw_condensed_tree \<Rightarrow>
          (let cluster_map =
                 fold (\<lambda>(k, v) m. m(k \<mapsto> v))
                   (zip selected_clusters (map int [0..<length selected_clusters])) Map.empty;
               cluster_tree = filter (\<lambda>r. child_size r > 1) raw_condensed_tree
           in case leaf_max_lambdas_loop cluster_tree raw_condensed_tree of
                None \<Rightarrow> None
              | Some (Inl e) \<Rightarrow> Some (Inl e)
              | Some (Inr leaf_max_lambdas) \<Rightarrow>
                  collect_clusters leaf_max_lambdas raw_condensed_tree cluster_tree
                    cluster_map selected_clusters)))))))"

section \<open>The two failures of the checks\<close>

text \<open>
  The errors raised at lines 340 and 348, before any neighbour is looked up.
\<close>

definition structural_errors :: "py_error set" where
  "structural_errors = {ValueError no_prediction_data, ValueError dimension_mismatch}"

section \<open>Two small hierarchies\<close>

text \<open>
  Four points, 0 to 3, under the root cluster 4: points 0 and 1 form cluster 5, points 2
  and 3 form cluster 6. Both clusters are selected, with labels 0 and 1.
\<close>

definition example_raw_tree :: "tree_row list" where
  "example_raw_tree =
     [\<lparr>parent = 4, child = 5, lambda_val = Fin (1/2), child_size = 2\<rparr>,
      \<lparr>parent = 4, child = 6, lambda_val = Fin (1/2), child_size = 2\<rparr>,
      \<lparr>parent = 5, child = 0, lambda_val = Fin 2, child_size = 1\<rparr>,
      \<lparr>parent = 5, child = 1, lambda_val = Fin 2, child_size = 1\<rparr>,
      \<lparr>parent = 6, child = 2, lambda_val = Fin 1, child_size = 1\<rparr>,
      \<lparr>parent = 6, child = 3, lambda_val = Fin 1, child_size = 1\<rparr>]"

definition example_cluster_tree :: "tree_row list" where
  "example_cluster_tree = filter (\<lambda>r. child_size r > 1) example_raw_tree"

definition example_condensed_tree :: CondensedTree where
  "example_condensed_tree =
     \<lparr>raw_tree = example_raw_tree, select_clusters = Inr [5, 6], to_numpy = Inr example_raw_tree\<rparr>"

text \<open>
  The same hierarchy when points 0 and 1 coincide: their distance is zero, so they
  leave cluster 5 at an infinite lambda, which is then the largest lambda of the cluster.
\<close>

definition duplicates_raw_tree :: "tree_row list" where
  "duplicates_raw_tree =
     [\<lparr>parent = 4, child = 5, lambda_val = Fin (1/2), child_size = 2\<rparr>,
      \<lparr>parent = 4, child = 6, lambda_val = Fin (1/2), child_size = 2\<rparr>,
      \<lparr>parent = 5, child = 0, lambda_val = PInf, child_size = 1\<rparr>,
      \<lparr>parent = 5, child = 1, lambda_val = PInf, child_size = 1\<rparr>,
      \<lparr>parent = 6, child = 2, lambda_val = Fin 1, child_size = 1\<rparr>,
      \<lparr>parent = 6, child = 3, lambda_val = Fin 1, child_size = 1\<rparr>]"

definition duplicates_condensed_tree :: CondensedTree where
  "duplicates_condensed_tree =
     \<lparr>raw_tree = duplicates_raw_tree, select_clusters = Inr [5, 6],
      to_numpy = Inr duplicates_raw_tree\<rparr>"

text \<open>
  A space tree that answers every query point with the neighbours 0 and 1 at distance
  1, the fitted data, the prediction data of the first hierarchy, and its clusterer.
\<close>

definition example_query :: space_tree where
  "example_query points k =
     Inr (\<lparr>shape1 = nat k, rows = map (\<lambda>p. [Fin 1, Fin 1]) (rows points)\<rparr>,
          \<lparr>shape1 = nat k, rows = map (\<lambda>p. [0, 1]) (rows points)\<rparr>)"

definition example_data :: "f64 array2d" where
  "example_data =
     \<lparr>shape1 = 2, rows = [[Fin 0, Fin 0], [Fin 0, Fin (1/2)], [Fin 5, Fin 0], [Fin 5, Fin 1]]\<rparr>"

definition example_prediction_data :: PredictionData where
  "example_prediction_data =
     \<lparr>pd_raw_data = example_data, pd_tree = example_query,
      pd_core_distances = [Fin (1/2), Fin (1/2), Fin 1, Fin 1],
      pd_cluster_map = [5 \<mapsto> 0, 6 \<mapsto> 1],
      pd_cluster_tree = example_cluster_tree,
      pd_max_lambdas = [5 \<mapsto> Fin 2, 6 \<mapsto> Fin 1]\<rparr>"

definition example_clusterer :: HDBSCAN where
  "example_clusterer =
     \<lparr>hd_prediction_data = Some example_prediction_data,
      hd_condensed_tree = example_condensed_tree,
      hd_min_samples = Some 1, hd_min_cluster_size = 2\<rparr>"

section \<open>Facts about the order of floats and about argmin\<close>

text \<open>On the floats that are not NaN, \<open>f64_lt\<close> is a strict linear order.\<close>

lemma f64_lt_irrefl: "\<not> f64_lt a a"
  by (cases a) simp_all

lemma f64_lt_trans: "f64_lt a b \<Longrightarrow> f64_lt b c \<Longrightarrow> f64_lt a c"
  by (cases a; cases b; cases c) simp_all

lemma f64_lt_total: "a \<noteq> NaN \<Longrightarrow> b \<noteq> NaN \<Longrightarrow> f64_lt a b \<or> a = b \<or> f64_lt b a"
  by (cases a; cases b) auto

lemma f64_le_refl: "a \<noteq> NaN \<Longrightarrow> f64_le a a"
  by (simp add: f64_le_def f64_lt_irrefl)

lemma f64_lt_le_trans: "f64_lt a b \<Longrightarrow> f64_le b c \<Longrightarrow> f64_lt a c"
  unfolding f64_le_def by (cases a; cases b; cases c) simp_all

lemma f64_lt_imp_le: "f64_lt a b \<Longrightarrow> f64_le a b"
  unfolding f64_le_def by (cases a; cases b) simp_all

lemma f64_not_lt_imp_le: "a \<noteq> NaN \<Longrightarrow> b \<noteq> NaN \<Longrightarrow> \<not> f64_lt a b \<Longrightarrow> f64_le b a"
  by (simp add: f64_le_def)

lemma f64_le_trans: "f64_le a b \<Longrightarrow> f64_le b c \<Longrightarrow> f64_le a c"
  unfolding f64_le_def by (cases a; cases b; cases c) simp_all

lemma f64_le_antisym: "f64_le a b \<Longrightarrow> f64_le b a \<Longrightarrow> a = b"
  unfolding f64_le_def by (cases a; cases b) simp_all

lemma np_argmin_scan_first_min:
  assumes "NaN \<notin> set xs" "mp \<noteq> NaN" "best < length ys" "ys ! best = mp"
    "\<forall>j<length ys. f64_le mp (ys ! j)" "\<forall>j<best. f64_lt mp (ys ! j)"
  shows "np_argmin_scan xs (length ys) mp best < length (ys @ xs) \<and>
    (\<forall>j<length (ys @ xs). f64_le ((ys @ xs) ! np_argmin_scan xs (length ys) mp best) ((ys @ xs) ! j)) \<and>
    (\<forall>j<np_argmin_scan xs (length ys) mp best.
        f64_lt ((ys @ xs) ! np_argmin_scan xs (length ys) mp best) ((ys @ xs) ! j))"
  using assms
proof (induction xs arbitrary: ys mp best)
  case Nil
  then show ?case by simp
next
  case (Cons x xs)
  have xn: "x \<noteq> NaN" and xsn: "NaN \<notin> set xs" using Cons.prems(1) by auto
  show ?case
  proof (cases "f64_lt x mp")
    case True
    have le: "\<forall>j<length (ys @ [x]). f64_le x ((ys @ [x]) ! j)"
    proof (intro allI impI)
      fix j assume "j < length (ys @ [x])"
      then consider "j < length ys" | "j = length ys" by fastforce
      then show "f64_le x ((ys @ [x]) ! j)"
      proof cases
        case 1
        then have "f64_le mp (ys ! j)" using Cons.prems(5) by blast
        then have "f64_lt x (ys ! j)" using True f64_lt_le_trans by blast
        then show ?thesis using 1 by (simp add: nth_append f64_lt_imp_le)
      next
        case 2
        then show ?thesis using xn by (simp add: f64_le_refl)
      qed
    qed
    have lt: "\<forall>j<length ys. f64_lt x ((ys @ [x]) ! j)"
      using Cons.prems(5) True f64_lt_le_trans by (auto simp: nth_append)
    have "np_argmin_scan xs (length (ys @ [x])) x (length ys) < length ((ys @ [x]) @ xs) \<and>
      (\<forall>j<length ((ys @ [x]) @ xs). f64_le (((ys @ [x]) @ xs) ! np_argmin_scan xs (length (ys @ [x])) x (length ys)) (((ys @ [x]) @ xs) ! j)) \<and>
      (\<forall>j<np_argmin_scan xs (length (ys @ [x])) x (length ys).
        f64_lt (((ys @ [x]) @ xs) ! np_argmin_scan xs (length (ys @ [x])) x (length ys)) (((ys @ [x]) @ xs) ! j))"
      by (rule Cons.IH) (use xsn xn le lt in simp_all)
    then show ?thesis using True Cons.prems(2) by simp
  next
    case False
    have mle: "f64_le mp x" using False xn Cons.prems(2) by (simp add: f64_le_def)
    have le: "\<forall>j<length (ys @ [x]). f64_le mp ((ys @ [x]) ! j)"
      using Cons.prems(5) mle by (auto simp: nth_append less_Suc_eq)
    have lt: "\<forall>j<best. f64_lt mp ((ys @ [x]) ! j)"
      using Cons.prems(3,6) by (auto simp: nth_append)
    have "np_argmin_scan xs (length (ys @ [x])) mp best < length ((ys @ [x]) @ xs) \<and>
      (\<forall>j<length ((ys @ [x]) @ xs). f64_le (((ys @ [x]) @ xs) ! np_argmin_scan xs (length (ys @ [x])) mp best) (((ys @ [x]) @ xs) ! j)) \<and>
      (\<forall>j<np_argmin_scan xs (length (ys @ [x])) mp best.
        f64_lt (((ys @ [x]) @ xs) ! np_argmin_scan xs (length (ys @ [x])) mp best) (((ys @ [x]) @ xs) ! j))"
      by (rule Cons.IH) (use xsn Cons.prems le lt in \<open>simp_all add: nth_append\<close>)
    then show ?thesis using False Cons.prems(2) xn by simp
  qed
qed

lemma np_argmin_first_min:
  assumes "a \<noteq> []" "NaN \<notin> set a"
  shows "\<exists>k. np_argmin a = Inr k \<and> k < length a \<and> (\<forall>j<length a. f64_le (a ! k) (a ! j)) \<and>
    (\<forall>j<k. f64_lt (a ! k) (a ! j))"
proof -
  obtain x xs where a: "a = x # xs" using assms(1) by (cases a) auto
  have "np_argmin_scan xs (length [x]) x 0 < length ([x] @ xs) \<and>
    (\<forall>j<length ([x] @ xs). f64_le (([x] @ xs) ! np_argmin_scan xs (length [x]) x 0) (([x] @ xs) ! j)) \<and>
    (\<forall>j<np_argmin_scan xs (length [x]) x 0.
        f64_lt (([x] @ xs) ! np_argmin_scan xs (length [x]) x 0) (([x] @ xs) ! j))"
    by (rule np_argmin_scan_first_min) (use assms(2) a in \<open>auto simp: f64_le_refl\<close>)
  then show ?thesis by (simp add: a np_argmin_def)
qed

section \<open>Properties of the resolver\<close>

lemma np_getitem_in_range: "0 \<le> i \<Longrightarrow> i < int (length a) \<Longrightarrow> np_getitem a i = Inr (a ! nat i)"
  by (simp add: np_getitem_def)

lemma np_getitem_too_short: "int (length a) \<le> i \<Longrightarrow> np_getitem a i = Inl IndexError"
  by (simp add: np_getitem_def Let_def)

lemma np_getitem_cases: "np_getitem a i = Inl IndexError \<or> (\<exists>x. np_getitem a i = Inr x)"
  by (simp add: np_getitem_def Let_def)

lemma np_take_in_range:
  "\<forall>i\<in>set idx. 0 \<le> i \<and> i < int (length a) \<Longrightarrow> np_take a idx = Inr (map (\<lambda>i. a ! nat i) idx)"
  by (induction idx) (simp_all add: np_getitem_in_range)

lemma np_take_cases:
  "np_take a idx = Inl IndexError \<or> (\<exists>xs. np_take a idx = Inr xs \<and> length xs = length idx)"
proof (induction idx)
  case Nil
  then show ?case by simp
next
  case (Cons i idx)
  then show ?case using np_getitem_cases [of a i] by (auto split: sum.splits)
qed

lemma mr_distances_in_range:
  assumes "0 \<le> min_samples" "min_samples < int (length neighbor_distances)"
    "length neighbor_indices = length neighbor_distances"
    "\<forall>i\<in>set neighbor_indices. 0 \<le> i \<and> i < int (length core_distances)"
  shows "mr_distances neighbor_indices neighbor_distances core_distances min_samples =
    Inr (map (\<lambda>(c, p, d). np_maximum (np_maximum c p) d)
          (zip (map (\<lambda>i. core_distances ! nat i) neighbor_indices)
            (zip (replicate (length neighbor_indices) (neighbor_distances ! nat min_samples))
              neighbor_distances)))"
  using assms by (simp add: mr_distances_def np_take_in_range np_getitem_in_range np_vstack3_max_def)

lemma np_maximum_not_NaN: "a \<noteq> NaN \<Longrightarrow> b \<noteq> NaN \<Longrightarrow> np_maximum a b \<noteq> NaN"
  by (simp add: np_maximum_def)

lemma mr_distances_nth:
  assumes "0 \<le> min_samples" "min_samples < int (length neighbor_distances)"
    "length neighbor_indices = length neighbor_distances"
    "\<forall>i\<in>set neighbor_indices. 0 \<le> i \<and> i < int (length core_distances)"
  shows "\<exists>mr. mr_distances neighbor_indices neighbor_distances core_distances min_samples = Inr mr \<and>
    length mr = length neighbor_indices \<and>
    (\<forall>j<length neighbor_indices. mr ! j =
       np_maximum (np_maximum (core_distances ! nat (neighbor_indices ! j))
         (neighbor_distances ! nat min_samples)) (neighbor_distances ! j))"
  using assms by (simp add: mr_distances_in_range)

lemma resolver_first_minimum:
  assumes "0 \<le> min_samples" "min_samples + 1 \<le> int (length neighbor_distances)"
    "length neighbor_indices = length neighbor_distances"
    "\<forall>i\<in>set neighbor_indices.
        0 \<le> i \<and> i < int (length core_distances) \<and> core_distances ! nat i \<noteq> NaN"
    "NaN \<notin> set neighbor_distances"
  shows "\<exists>mr k. mr_distances neighbor_indices neighbor_distances core_distances min_samples = Inr mr \<and>
    length mr = length neighbor_indices \<and>
    (\<forall>j<length neighbor_indices. mr ! j =
       np_maximum (np_maximum (core_distances ! nat (neighbor_indices ! j))
         (neighbor_distances ! nat min_samples)) (neighbor_distances ! j)) \<and>
    k < length neighbor_indices \<and>
    (\<forall>j<length neighbor_indices. f64_le (mr ! k) (mr ! j)) \<and>
    (\<forall>j<k. f64_lt (mr ! k) (mr ! j)) \<and>
    find_neighbor_and_lambda neighbor_indices neighbor_distances core_distances min_samples =
      Inr (neighbor_indices ! k, f64_div (Fin 1) (mr ! k))"
proof -
  have ms: "min_samples < int (length neighbor_distances)" using assms(2) by simp
  have rng: "\<forall>i\<in>set neighbor_indices. 0 \<le> i \<and> i < int (length core_distances)"
    using assms(4) by blast
  obtain mr where mr: "mr_distances neighbor_indices neighbor_distances core_distances min_samples = Inr mr"
    and len: "length mr = length neighbor_indices"
    and nth: "\<forall>j<length neighbor_indices. mr ! j =
       np_maximum (np_maximum (core_distances ! nat (neighbor_indices ! j))
         (neighbor_distances ! nat min_samples)) (neighbor_distances ! j)"
    using mr_distances_nth [OF assms(1) ms assms(3) rng] by blast
  have pcd: "neighbor_distances ! nat min_samples \<noteq> NaN"
    using assms(1,5) ms by (metis nat_less_iff nth_mem)
  have "mr ! j \<noteq> NaN" if "j < length neighbor_indices" for j
  proof -
    have "core_distances ! nat (neighbor_indices ! j) \<noteq> NaN" using assms(4) that by simp
    moreover have "neighbor_distances ! j \<noteq> NaN" using assms(3,5) that by (metis nth_mem)
    ultimately show ?thesis using nth that pcd by (simp add: np_maximum_not_NaN)
  qed
  then have nonan: "NaN \<notin> set mr" using len by (metis in_set_conv_nth)
  have ne: "mr \<noteq> []" using len assms(3) ms assms(1) by auto
  obtain k where k: "np_argmin mr = Inr k" "k < length mr" "\<forall>j<length mr. f64_le (mr ! k) (mr ! j)"
    "\<forall>j<k. f64_lt (mr ! k) (mr ! j)"
    using np_argmin_first_min [OF ne nonan] by blast
  have "find_neighbor_and_lambda neighbor_indices neighbor_distances core_distances min_samples =
      Inr (neighbor_indices ! k, f64_div (Fin 1) (mr ! k))"
    by (simp add: find_neighbor_and_lambda_def mr k(1))
  then show ?thesis using mr len nth k by auto
qed

lemma f64_div_rounding_exact: "f64_div_rounding Fin a b = f64_div a b"
  by (cases a; cases b) simp_all

lemma find_neighbor_and_lambda_rounding_exact:
  "find_neighbor_and_lambda_rounding Fin neighbor_indices neighbor_distances core_distances
       min_samples =
   find_neighbor_and_lambda neighbor_indices neighbor_distances core_distances min_samples"
  by (simp add: find_neighbor_and_lambda_rounding_def find_neighbor_and_lambda_def
      f64_div_rounding_exact split: sum.splits)

lemma np_maximum_greatest:
  assumes "a \<noteq> NaN" "b \<noteq> NaN"
  shows "np_maximum a b \<in> {a, b} \<and> f64_le a (np_maximum a b) \<and> f64_le b (np_maximum a b)"
  using assms
  by (simp add: np_maximum_def f64_le_refl f64_lt_imp_le f64_not_lt_imp_le)

lemma np_maximum3_greatest:
  assumes "a \<noteq> NaN" "b \<noteq> NaN" "c \<noteq> NaN"
  shows "np_maximum (np_maximum a b) c \<in> {a, b, c} \<and>
    f64_le a (np_maximum (np_maximum a b) c) \<and>
    f64_le b (np_maximum (np_maximum a b) c) \<and>
    f64_le c (np_maximum (np_maximum a b) c)"
proof -
  have ab: "np_maximum a b \<in> {a, b}" "f64_le a (np_maximum a b)" "f64_le b (np_maximum a b)"
    using np_maximum_greatest [OF assms(1,2)] by simp_all
  have n: "np_maximum a b \<noteq> NaN" using assms(1,2) by (rule np_maximum_not_NaN)
  have abc: "np_maximum (np_maximum a b) c \<in> {np_maximum a b, c}"
    "f64_le (np_maximum a b) (np_maximum (np_maximum a b) c)"
    "f64_le c (np_maximum (np_maximum a b) c)"
    using np_maximum_greatest [OF n assms(3)] by simp_all
  have "f64_le a (np_maximum (np_maximum a b) c)" using ab(2) abc(2) by (rule f64_le_trans)
  moreover have "f64_le b (np_maximum (np_maximum a b) c)" using ab(3) abc(2) by (rule f64_le_trans)
  ultimately show ?thesis using ab(1) abc(1,3) by auto
qed

lemma f64_div_rounding_reciprocal:
  "f64_div_rounding rnd (Fin 1) (Fin x) = (if x = 0 then PInf else rnd (1 / x))"
  "f64_div_rounding rnd (Fin 1) PInf = Fin 0"
  "f64_div_rounding rnd (Fin 1) NInf = Fin 0"
  by simp_all

lemma resolver_argmin:
  assumes "0 \<le> min_samples" "min_samples + 1 \<le> int (length neighbor_distances)"
    "length neighbor_indices = length neighbor_distances"
    "\<forall>i\<in>set neighbor_indices.
        0 \<le> i \<and> i < int (length core_distances) \<and> core_distances ! nat i \<noteq> NaN"
    "NaN \<notin> set neighbor_distances"
  shows "\<exists>mr k. mr_distances neighbor_indices neighbor_distances core_distances min_samples = Inr mr \<and>
    length mr = length neighbor_indices \<and>
    (\<forall>j<length neighbor_indices.
       mr ! j \<in> {core_distances ! nat (neighbor_indices ! j),
                 neighbor_distances ! nat min_samples, neighbor_distances ! j} \<and>
       f64_le (core_distances ! nat (neighbor_indices ! j)) (mr ! j) \<and>
       f64_le (neighbor_distances ! nat min_samples) (mr ! j) \<and>
       f64_le (neighbor_distances ! j) (mr ! j)) \<and>
    np_argmin mr = Inr k \<and> k < length neighbor_indices \<and>
    (\<forall>j<length neighbor_indices. f64_le (mr ! k) (mr ! j))"
proof -
  have ms: "min_samples < int (length neighbor_distances)" using assms(2) by simp
  have rng: "\<forall>i\<in>set neighbor_indices. 0 \<le> i \<and> i < int (length core_distances)"
    using assms(4) by blast
  obtain mr where mr: "mr_distances neighbor_indices neighbor_distances core_distances min_samples = Inr mr"
    and len: "length mr = length neighbor_indices"
    and nth: "\<forall>j<length neighbor_indices. mr ! j =
       np_maximum (np_maximum (core_distances ! nat (neighbor_indices ! j))
         (neighbor_distances ! nat min_samples)) (neighbor_distances ! j)"
    using mr_distances_nth [OF assms(1) ms assms(3) rng] by blast
  have pcd: "neighbor_distances ! nat min_samples \<noteq> NaN"
    using assms(1,5) ms by (metis nat_less_iff nth_mem)
  have greatest: "mr ! j \<in> {core_distances ! nat (neighbor_indices ! j),
                 neighbor_distances ! nat min_samples, neighbor_distances ! j} \<and>
       f64_le (core_distances ! nat (neighbor_indices ! j)) (mr ! j) \<and>
       f64_le (neighbor_distances ! nat min_samples) (mr ! j) \<and>
       f64_le (neighbor_distances ! j) (mr ! j)" if "j < length neighbor_indices" for j
  proof -
    have c: "core_distances ! nat (neighbor_indices ! j) \<noteq> NaN" using assms(4) that by simp
    have d: "neighbor_distances ! j \<noteq> NaN" using assms(3,5) that by (metis nth_mem)
    have "mr ! j = np_maximum (np_maximum (core_distances ! nat (neighbor_indices ! j))
         (neighbor_distances ! nat min_samples)) (neighbor_distances ! j)"
      using nth that by blast
    then show ?thesis using np_maximum3_greatest [OF c pcd d] by simp
  qed
  have "mr ! j \<noteq> NaN" if "j < length neighbor_indices" for j
    using greatest [OF that] by (auto simp: f64_le_def)
  then have nonan: "NaN \<notin> set mr" using len by (metis in_set_conv_nth)
  have ne: "mr \<noteq> []" using len assms(3) ms assms(1) by auto
  obtain k where k: "np_argmin mr = Inr k" "k < length mr" "\<forall>j<length mr. f64_le (mr ! k) (mr ! j)"
    using np_argmin_first_min [OF ne nonan] by blast
  show ?thesis using mr len greatest k by auto
qed

text \<open>
  Claim C3. With at least \<open>min_samples + 1\<close> candidates, indices that are positions of
  the core distance array and no NaN among the distances, the resolver returns. The
  distance \<open>mr ! j\<close> it gives to candidate \<open>j\<close> is the greatest of three floats, the core
  distance of the candidate, the pseudo core distance (the raw distance at index
  \<open>min_samples\<close>) and the raw distance of the candidate: it is one of the three and none
  of them exceeds it. The index returned is that of a candidate \<open>k\<close> at which this
  distance is least. The lambda returned is the reciprocal of that least distance as
  the division of floats yields it: the rounded \<open>1 / x\<close> for a finite \<open>x\<close> other than
  zero, whatever the rounding \<open>rnd\<close> is, the positive infinity for zero, and zero for an
  infinite distance.
\<close>

theorem resolver_computation:
  assumes "0 \<le> min_samples" "min_samples + 1 \<le> int (length neighbor_distances)"
    "length neighbor_indices = length neighbor_distances"
    "\<forall>i\<in>set neighbor_indices.
        0 \<le> i \<and> i < int (length core_distances) \<and> core_distances ! nat i \<noteq> NaN"
    "NaN \<notin> set neighbor_distances"
  shows "\<exists>mr k lam.
    mr_distances neighbor_indices neighbor_distances core_distances min_samples = Inr mr \<and>
    length mr = length neighbor_indices \<and>
    (\<forall>j<length neighbor_indices.
       mr ! j \<in> {core_distances ! nat (neighbor_indices ! j),
                 neighbor_distances ! nat min_samples, neighbor_distances ! j} \<and>
       f64_le (core_distances ! nat (neighbor_indices ! j)) (mr ! j) \<and>
       f64_le (neighbor_distances ! nat min_samples) (mr ! j) \<and>
       f64_le (neighbor_distances ! j) (mr ! j)) \<and>
    k < length neighbor_indices \<and>
    (\<forall>j<length neighbor_indices. f64_le (mr ! k) (mr ! j)) \<and>
    find_neighbor_and_lambda_rounding rnd neighbor_indices neighbor_distances core_distances
        min_samples = Inr (neighbor_indices ! k, lam) \<and>
    (\<forall>x. mr ! k = Fin x \<longrightarrow> lam = (if x = 0 then PInf else rnd (1 / x))) \<and>
    (mr ! k = PInf \<longrightarrow> lam = Fin 0) \<and> (mr ! k = NInf \<longrightarrow> lam = Fin 0)"
proof -
  obtain mr k where mr: "mr_distances neighbor_indices neighbor_distances core_distances min_samples = Inr mr"
    and len: "length mr = length neighbor_indices"
    and greatest: "\<forall>j<length neighbor_indices.
       mr ! j \<in> {core_distances ! nat (neighbor_indices ! j),
                 neighbor_distances ! nat min_samples, neighbor_distances ! j} \<and>
       f64_le (core_distances ! nat (neighbor_indices ! j)) (mr ! j) \<and>
       f64_le (neighbor_distances ! nat min_samples) (mr ! j) \<and>
       f64_le (neighbor_distances ! j) (mr ! j)"
    and k: "np_argmin mr = Inr k" "k < length neighbor_indices"
      "\<forall>j<length neighbor_indices. f64_le (mr ! k) (mr ! j)"
    using resolver_argmin [OF assms] by blast
  have res: "find_neighbor_and_lambda_rounding rnd neighbor_indices neighbor_distances core_distances
        min_samples = Inr (neighbor_indices ! k, f64_div_rounding rnd (Fin 1) (mr ! k))"
    by (simp add: find_neighbor_and_lambda_rounding_def mr k(1))
  have lam: "(\<forall>x. mr ! k = Fin x \<longrightarrow>
        f64_div_rounding rnd (Fin 1) (mr ! k) = (if x = 0 then PInf else rnd (1 / x))) \<and>
    (mr ! k = PInf \<longrightarrow> f64_div_rounding rnd (Fin 1) (mr ! k) = Fin 0) \<and>
    (mr ! k = NInf \<longrightarrow> f64_div_rounding rnd (Fin 1) (mr ! k) = Fin 0)"
    by (simp add: f64_div_rounding_reciprocal)
  show ?thesis using mr len greatest k(2,3) res lam by blast
qed

text \<open>
  Four candidates and \<open>min_samples = 2\<close>. The hypotheses of C3 hold, and its conclusion
  leaves one outcome only: the distances are \<open>3/2\<close>, \<open>7/4\<close>, \<open>3\<close> and \<open>2\<close>, candidate 0 is
  returned, and lambda is the rounded \<open>2/3\<close>.
\<close>

theorem resolver_computation_witness:
  "\<forall>rnd.
     mr_distances [0, 1, 2, 3] [Fin (1/2), Fin 1, Fin (3/2), Fin 2]
         [Fin 1, Fin (7/4), Fin 3, Fin 1] 2 = Inr [Fin (3/2), Fin (7/4), Fin 3, Fin 2] \<and>
     find_neighbor_and_lambda_rounding rnd [0, 1, 2, 3] [Fin (1/2), Fin 1, Fin (3/2), Fin 2]
         [Fin 1, Fin (7/4), Fin 3, Fin 1] 2 = Inr (0, rnd (2/3))"
proof (intro allI)
  fix rnd :: "real \<Rightarrow> f64"
  let ?ni = "[0, 1, 2, 3] :: int list"
  let ?nd = "[Fin (1/2), Fin 1, Fin (3/2), Fin 2]"
  let ?core = "[Fin 1, Fin (7/4), Fin 3, Fin 1]"
  have hyps: "(0::int) \<le> 2" "2 + 1 \<le> int (length ?nd)" "length ?ni = length ?nd"
    "\<forall>i\<in>set ?ni. 0 \<le> i \<and> i < int (length ?core) \<and> ?core ! nat i \<noteq> NaN"
    "NaN \<notin> set ?nd"
    by simp_all
  obtain mr k lam where mr: "mr_distances ?ni ?nd ?core 2 = Inr mr"
    and len: "length mr = length ?ni"
    and greatest: "\<forall>j<length ?ni.
       mr ! j \<in> {?core ! nat (?ni ! j), ?nd ! nat 2, ?nd ! j} \<and>
       f64_le (?core ! nat (?ni ! j)) (mr ! j) \<and> f64_le (?nd ! nat 2) (mr ! j) \<and>
       f64_le (?nd ! j) (mr ! j)"
    and k: "k < length ?ni" "\<forall>j<length ?ni. f64_le (mr ! k) (mr ! j)"
    and res: "find_neighbor_and_lambda_rounding rnd ?ni ?nd ?core 2 = Inr (?ni ! k, lam)"
    and lam: "\<forall>x. mr ! k = Fin x \<longrightarrow> lam = (if x = 0 then PInf else rnd (1 / x))"
    using resolver_computation [OF hyps, of rnd] by blast
  have m0: "mr ! 0 = Fin (3/2)" using greatest [rule_format, of 0] by (auto simp: f64_le_def)
  have m1: "mr ! 1 = Fin (7/4)" using greatest [rule_format, of 1] by (auto simp: f64_le_def)
  have m2: "mr ! 2 = Fin 3" using greatest [rule_format, of 2] by (auto simp: f64_le_def)
  have m3: "mr ! 3 = Fin 2" using greatest [rule_format, of 3] by (auto simp: f64_le_def)
  have k4: "k = 0 \<or> k = 1 \<or> k = 2 \<or> k = 3" using k(1) by auto
  have "f64_le (mr ! k) (mr ! 0)" using k(2) by simp
  then have k0: "k = 0" using k4 m0 m1 m2 m3 by (auto simp: f64_le_def)
  have "mr ! k = Fin (3/2)" using k0 m0 by simp
  then have "lam = (if (3/2 :: real) = 0 then PInf else rnd (1 / (3/2)))" using lam by blast
  then have "lam = rnd (2/3)" by simp
  then have "find_neighbor_and_lambda_rounding rnd ?ni ?nd ?core 2 = Inr (0, rnd (2/3))"
    using res k0 by simp
  moreover have "mr = [Fin (3/2), Fin (7/4), Fin 3, Fin 2]"
  proof (rule nth_equalityI)
    show "length mr = length [Fin (3/2), Fin (7/4), Fin 3, Fin 2]" using len by simp
  next
    fix i assume "i < length mr"
    then have "i = 0 \<or> i = 1 \<or> i = 2 \<or> i = 3" using len by auto
    then show "mr ! i = [Fin (3/2), Fin (7/4), Fin 3, Fin 2] ! i" using m0 m1 m2 m3 by auto
  qed
  ultimately show "mr_distances ?ni ?nd ?core 2 = Inr [Fin (3/2), Fin (7/4), Fin 3, Fin 2] \<and>
     find_neighbor_and_lambda_rounding rnd ?ni ?nd ?core 2 = Inr (0, rnd (2/3))"
    using mr by simp
qed

text \<open>
  Claim C7. Among the candidates that attain the least mutual reachability distance
  the resolver selects the one that stands first in the input arrays; when the raw
  distances are sorted ascending, no tied candidate has a smaller raw distance.
\<close>

theorem resolver_tie_break:
  assumes "0 \<le> min_samples" "min_samples + 1 \<le> int (length neighbor_distances)"
    "length neighbor_indices = length neighbor_distances"
    "\<forall>i\<in>set neighbor_indices.
        0 \<le> i \<and> i < int (length core_distances) \<and> core_distances ! nat i \<noteq> NaN"
    "NaN \<notin> set neighbor_distances"
  shows "\<exists>mr k. mr_distances neighbor_indices neighbor_distances core_distances min_samples = Inr mr \<and>
    k < length neighbor_indices \<and>
    find_neighbor_and_lambda neighbor_indices neighbor_distances core_distances min_samples =
      Inr (neighbor_indices ! k, f64_div (Fin 1) (mr ! k)) \<and>
    (\<forall>j<length neighbor_indices. f64_le (mr ! k) (mr ! j)) \<and>
    (\<forall>j<length neighbor_indices. mr ! j = mr ! k \<longrightarrow> k \<le> j) \<and>
    (sorted_wrt f64_le neighbor_distances \<longrightarrow>
      (\<forall>j<length neighbor_indices. mr ! j = mr ! k \<longrightarrow>
         f64_le (neighbor_distances ! k) (neighbor_distances ! j)))"
proof -
  obtain mr k where mr: "mr_distances neighbor_indices neighbor_distances core_distances min_samples = Inr mr"
    and len: "length mr = length neighbor_indices"
    and k: "k < length neighbor_indices" "\<forall>j<length neighbor_indices. f64_le (mr ! k) (mr ! j)"
      "\<forall>j<k. f64_lt (mr ! k) (mr ! j)"
    and res: "find_neighbor_and_lambda neighbor_indices neighbor_distances core_distances min_samples =
      Inr (neighbor_indices ! k, f64_div (Fin 1) (mr ! k))"
    using resolver_first_minimum [OF assms] by blast
  have first: "k \<le> j" if "mr ! j = mr ! k" for j
  proof (rule ccontr)
    assume "\<not> k \<le> j"
    then have "f64_lt (mr ! k) (mr ! j)" using k(3) by simp
    then show False using that by (simp add: f64_lt_irrefl)
  qed
  have closest: "f64_le (neighbor_distances ! k) (neighbor_distances ! j)"
    if "sorted_wrt f64_le neighbor_distances" "j < length neighbor_indices" "mr ! j = mr ! k" for j
  proof (cases "k = j")
    case True
    have "neighbor_distances ! j \<noteq> NaN" using assms(3,5) that(2) by (metis nth_mem)
    then show ?thesis using True by (simp add: f64_le_refl)
  next
    case False
    then have "k < j" using first [OF that(3)] by simp
    then show ?thesis using that(1,2) assms(3) by (simp add: sorted_wrt_iff_nth_less)
  qed
  show ?thesis using mr res k(1,2) first closest by auto
qed

text \<open>
  Candidates 4 and 2 tie at the least distance \<open>3/2\<close>; the hypotheses of C7 hold there.
\<close>

theorem resolver_tie_break_witness:
  "\<exists>mr k. mr_distances [4, 2, 0, 1] [Fin (1/2), Fin 1, Fin (3/2), Fin 2]
        [Fin 1, Fin 1, Fin 3, Fin 1, Fin (3/4)] 2 = Inr mr \<and>
    k < length [4, 2, 0, 1 :: int] \<and>
    find_neighbor_and_lambda [4, 2, 0, 1] [Fin (1/2), Fin 1, Fin (3/2), Fin 2]
        [Fin 1, Fin 1, Fin 3, Fin 1, Fin (3/4)] 2 =
      Inr ([4, 2, 0, 1] ! k, f64_div (Fin 1) (mr ! k)) \<and>
    (\<forall>j<length [4, 2, 0, 1 :: int]. f64_le (mr ! k) (mr ! j)) \<and>
    (\<forall>j<length [4, 2, 0, 1 :: int]. mr ! j = mr ! k \<longrightarrow> k \<le> j) \<and>
    (sorted_wrt f64_le [Fin (1/2), Fin 1, Fin (3/2), Fin 2] \<longrightarrow>
      (\<forall>j<length [4, 2, 0, 1 :: int]. mr ! j = mr ! k \<longrightarrow>
         f64_le ([Fin (1/2), Fin 1, Fin (3/2), Fin 2] ! k) ([Fin (1/2), Fin 1, Fin (3/2), Fin 2] ! j)))"
  by (rule resolver_tie_break) simp_all

text \<open>
  Claim C8. With fewer than \<open>min_samples + 1\<close> candidates the resolver returns no
  result: it fails. When the distance array is that short the failure is the
  IndexError of reading \<^verbatim>\<open>neighbor_distances[min_samples]\<close>, the pseudo core distance.
\<close>

theorem resolver_too_few_candidates:
  assumes "int (length neighbor_distances) < min_samples + 1 \<or>
    int (length neighbor_indices) < min_samples + 1"
  shows "(\<exists>e. find_neighbor_and_lambda neighbor_indices neighbor_distances core_distances
            min_samples = Inl e) \<and>
    (int (length neighbor_distances) < min_samples + 1 \<longrightarrow>
       find_neighbor_and_lambda neighbor_indices neighbor_distances core_distances
            min_samples = Inl IndexError)"
proof -
  have short: "find_neighbor_and_lambda neighbor_indices neighbor_distances core_distances
            min_samples = Inl IndexError" if "int (length neighbor_distances) < min_samples + 1"
  proof -
    have "np_getitem neighbor_distances min_samples = Inl IndexError"
      using that by (simp add: np_getitem_too_short)
    then show ?thesis
      using np_take_cases [of core_distances neighbor_indices]
      by (auto simp: find_neighbor_and_lambda_def mr_distances_def)
  qed
  have "\<exists>e. find_neighbor_and_lambda neighbor_indices neighbor_distances core_distances
            min_samples = Inl e"
  proof (cases "int (length neighbor_distances) < min_samples + 1")
    case True
    then show ?thesis using short by blast
  next
    case False
    then have "length neighbor_indices \<noteq> length neighbor_distances" using assms by auto
    then show ?thesis
      using np_take_cases [of core_distances neighbor_indices]
      by (auto simp: find_neighbor_and_lambda_def mr_distances_def np_vstack3_max_def
          split: sum.splits)
  qed
  then show ?thesis using short by blast
qed

text \<open>The scenario of the specification: \<open>min_samples = 5\<close> and five candidates.\<close>

theorem resolver_too_few_candidates_witness:
  "(int (length [Fin 0, Fin 1, Fin 2, Fin 3, Fin 4]) < 5 + 1 \<or> int (length [0, 1, 2, 3, 4 :: int]) < 5 + 1) \<and>
   find_neighbor_and_lambda [0, 1, 2, 3, 4] [Fin 0, Fin 1, Fin 2, Fin 3, Fin 4]
     [Fin 1, Fin 1, Fin 1, Fin 1, Fin 1, Fin 1] 5 = Inl IndexError"
  using resolver_too_few_candidates [of "[Fin 0, Fin 1, Fin 2, Fin 3, Fin 4]" 5 "[0, 1, 2, 3, 4]"
      "[Fin 1, Fin 1, Fin 1, Fin 1, Fin 1, Fin 1]"]
  by simp

text \<open>
  Claim C10. When the least mutual reachability distance of a query is exactly zero,
  the resolver returns, and its lambda is the positive infinity.
\<close>

theorem resolver_infinite_lambda:
  assumes "0 \<le> min_samples" "min_samples + 1 \<le> int (length neighbor_distances)"
    "length neighbor_indices = length neighbor_distances"
    "\<forall>i\<in>set neighbor_indices.
        0 \<le> i \<and> i < int (length core_distances) \<and> core_distances ! nat i \<noteq> NaN"
    "NaN \<notin> set neighbor_distances"
    "mr_distances neighbor_indices neighbor_distances core_distances min_samples = Inr mr"
    "Fin 0 \<in> set mr" "\<forall>d\<in>set mr. f64_le (Fin 0) d"
  shows "\<exists>k<length neighbor_indices.
    find_neighbor_and_lambda neighbor_indices neighbor_distances core_distances min_samples =
      Inr (neighbor_indices ! k, PInf)"
proof -
  obtain mr' k where mr': "mr_distances neighbor_indices neighbor_distances core_distances min_samples = Inr mr'"
    and len: "length mr' = length neighbor_indices"
    and k: "k < length neighbor_indices" "\<forall>j<length neighbor_indices. f64_le (mr' ! k) (mr' ! j)"
    and res: "find_neighbor_and_lambda neighbor_indices neighbor_distances core_distances min_samples =
      Inr (neighbor_indices ! k, f64_div (Fin 1) (mr' ! k))"
    using resolver_first_minimum [OF assms(1-5)] by blast
  have eq: "mr' = mr" using mr' assms(6) by simp
  obtain j where j: "j < length mr" "mr ! j = Fin 0" using assms(7) by (metis in_set_conv_nth)
  have "f64_le (mr ! k) (Fin 0)" using k(2) j len eq by auto
  moreover have "f64_le (Fin 0) (mr ! k)" using assms(8) k(1) len eq by simp
  ultimately have "mr ! k = Fin 0" by (rule f64_le_antisym)
  then show ?thesis using res k(1) eq by auto
qed

text \<open>A query point that coincides with two points of core distance zero.\<close>

theorem resolver_infinite_lambda_witness:
  "\<exists>k<length [3, 0, 1 :: int].
    find_neighbor_and_lambda [3, 0, 1] [Fin 0, Fin 0, Fin 2] [Fin 0, Fin 1, Fin 1, Fin 0] 1 =
      Inr ([3, 0, 1] ! k, PInf)"
  by (rule resolver_infinite_lambda [where mr = "[Fin 0, Fin 0, Fin 2]"])
    (simp_all add: mr_distances_def np_getitem_def np_vstack3_max_def np_maximum_def f64_le_def)

section \<open>Runs on the two hierarchies\<close>

text \<open>
  The definitions that a concrete run unfolds.
\<close>

lemmas run_defs = find_cluster_and_probability_def enclosing_node_def label_and_probability_def
  find_neighbor_and_lambda_def mr_distances_def np_getitem_def np_vstack3_max_def np_maximum_def
  np_argmin_def np_min_def np_truth_def get_tree_row_with_child_def f64_gt_def f64_ge_def f64_le_def
  py_min_def new_tree_row_def extend_condensed_tree_def np_append_def np_ravel_def
  example_raw_tree_def example_cluster_tree_def example_condensed_tree_def
  duplicates_raw_tree_def duplicates_condensed_tree_def

lemmas example_defs = example_query_def example_data_def example_prediction_data_def
  example_clusterer_def

section \<open>Properties of label and probability\<close>

text \<open>
  What lines 282 to 298 return: the label of the cluster map or \<open>- 1\<close>, and the
  probability by the three cases of the source.
\<close>

lemma label_and_probability_result:
  assumes "label_and_probability cluster_map max_lambdas potential_cluster lam = Inr (label, prob)"
  shows "label = (case cluster_map potential_cluster of Some l \<Rightarrow> l | None \<Rightarrow> - 1) \<and>
    (0 \<le> label \<longrightarrow>
       (\<exists>max_lambda. max_lambdas potential_cluster = Some max_lambda \<and>
          prob = (if f64_gt max_lambda (Fin 0) then f64_div (py_min max_lambda lam) max_lambda
                  else Fin 1))) \<and>
    (label < 0 \<longrightarrow> prob = Fin 0)"
  using assms
  by (auto simp: label_and_probability_def Let_def split: option.splits if_splits)

text \<open>
  The probability lies between 0 and 1 when the lambda of the point is not negative,
  unless that lambda and the largest lambda of the cluster are both infinite.
\<close>

lemma probability_in_unit_interval:
  assumes "label_and_probability cluster_map max_lambdas potential_cluster lam = Inr (label, prob)"
    "f64_le (Fin 0) lam"
    "max_lambdas potential_cluster \<noteq> Some PInf \<or> lam \<noteq> PInf"
  shows "f64_le (Fin 0) prob \<and> f64_le prob (Fin 1)"
proof (cases "0 \<le> label")
  case False
  then have "prob = Fin 0" using label_and_probability_result [OF assms(1)] by simp
  then show ?thesis by (simp add: f64_le_def)
next
  case True
  then obtain m where m: "max_lambdas potential_cluster = Some m"
    and prob: "prob = (if f64_gt m (Fin 0) then f64_div (py_min m lam) m else Fin 1)"
    using label_and_probability_result [OF assms(1)] by blast
  show ?thesis
  proof (cases "f64_gt m (Fin 0)")
    case False
    then show ?thesis using prob by (simp add: f64_le_def)
  next
    case pos: True
    have lam: "lam \<noteq> NaN" "\<not> f64_lt lam (Fin 0)" using assms(2) by (simp_all add: f64_le_def)
    show ?thesis
    proof (cases m)
      case (Fin x)
      then have x: "0 < x" using pos by (simp add: f64_gt_def)
      show ?thesis
      proof (cases lam)
        case (Fin y)
        then have "0 \<le> y" using lam(2) by simp
        then show ?thesis using prob pos x Fin \<open>m = Fin x\<close>
          by (auto simp: py_min_def f64_le_def not_less divide_nonneg_pos)
      next
        case PInf
        then show ?thesis using prob pos x \<open>m = Fin x\<close> by (simp add: py_min_def f64_le_def)
      next
        case NInf
        then show ?thesis using lam by simp
      next
        case NaN
        then show ?thesis using lam by simp
      qed
    next
      case PInf
      then have "lam \<noteq> PInf" using assms(3) m by simp
      then obtain y where y: "lam = Fin y" using lam by (cases lam) simp_all
      then show ?thesis using prob pos PInf by (simp add: py_min_def f64_le_def)
    next
      case NInf
      then show ?thesis using pos by (simp add: f64_gt_def)
    next
      case NaN
      then show ?thesis using pos by (simp add: f64_gt_def)
    qed
  qed
qed

text \<open>
  The scenarios of the specification: a point that lands in a selected cluster whose
  largest lambda is 2, at lambda 1, has label 0 and probability one half; a point whose
  climb ends at the root has label \<open>- 1\<close> and probability 0.
\<close>

lemma scenario_half_probability: "find_cluster_and_probability get_tree_row_with_child example_condensed_tree
    example_cluster_tree [0, 1] [Fin 1, Fin 1] [Fin (1/2), Fin (1/2), Fin 1, Fin 1]
    [5 \<mapsto> 0, 6 \<mapsto> 1] [5 \<mapsto> Fin 2, 6 \<mapsto> Fin 1] 1 = Some (Inr (0, Fin (1/2)))"
  by (simp add: run_defs ascend.simps)

lemma scenario_noise: "find_cluster_and_probability get_tree_row_with_child example_condensed_tree
    example_cluster_tree [0, 1] [Fin 4, Fin 4] [Fin (1/2), Fin (1/2), Fin 1, Fin 1]
    [5 \<mapsto> 0, 6 \<mapsto> 1] [5 \<mapsto> Fin 2, 6 \<mapsto> Fin 1] 1 = Some (Inr (- 1, Fin 0))"
  by (simp add: run_defs ascend.simps)

text \<open>
  Claim C2. The label and the probability are those of the claim in every case but
  one, and there the probability is not between 0 and 1: a query point that coincides
  with the coinciding points 0 and 1 has lambda \<open>1 / 0\<close>, the largest lambda of its
  cluster is infinite too, and the quotient of the two infinities is NaN. The run below
  is that query.
\<close>

theorem duplicate_point_probability: "find_cluster_and_probability get_tree_row_with_child duplicates_condensed_tree
    example_cluster_tree [0, 1] [Fin 0, Fin 0] [Fin 0, Fin 0, Fin 1, Fin 1]
    [5 \<mapsto> 0, 6 \<mapsto> 1] [5 \<mapsto> PInf, 6 \<mapsto> Fin 1] 1 = Some (Inr (0, NaN))"
  by (simp add: run_defs ascend.simps)

section \<open>Properties of the extension\<close>

text \<open>
  Where the climb stops: at or below the root, or at a node whose own record does not
  have a lambda of at least the lambda of the point.
\<close>

lemma ascend_stops:
  assumes "ascend tree tree_root lam potential_cluster = Some r"
  shows "\<forall>q. r = Inr q \<longrightarrow> \<not> tree_root < q \<or>
    np_truth (map (\<lambda>r. f64_ge (lambda_val r) lam) (filter (\<lambda>r. child r = q) tree)) = Inr False"
proof (rule ascend.raw_induct
    [where P = "\<lambda>t root l pc y. \<forall>q. y = Inr q \<longrightarrow> \<not> root < q \<or>
      np_truth (map (\<lambda>r. f64_ge (lambda_val r) l) (filter (\<lambda>r. child r = q) t)) = Inr False",
      OF _ assms])
  fix loop :: "tree_row list \<Rightarrow> int \<Rightarrow> f64 \<Rightarrow> int \<Rightarrow> (py_error + int) option"
  fix t :: "tree_row list" and root pc :: int and l :: f64 and y :: "py_error + int"
  assume IH: "\<And>t' root' l' pc' y'. loop t' root' l' pc' = Some y' \<Longrightarrow>
      \<forall>q. y' = Inr q \<longrightarrow> \<not> root' < q \<or>
        np_truth (map (\<lambda>r. f64_ge (lambda_val r) l') (filter (\<lambda>r. child r = q) t')) = Inr False"
  assume eq: "(if root < pc
      then case np_truth (map (\<lambda>r. f64_ge (lambda_val r) l) (filter (\<lambda>r. child r = pc) t)) of
           Inl e \<Rightarrow> Some (Inl e)
           | Inr b \<Rightarrow>
               if b
               then case np_getitem (map parent (filter (\<lambda>r. child r = pc) t)) 0 of
                    Inl e \<Rightarrow> Some (Inl e)
                    | Inr p \<Rightarrow> loop t root l p
               else Some (Inr pc)
      else Some (Inr pc)) = Some y"
  show "\<forall>q. y = Inr q \<longrightarrow> \<not> root < q \<or>
      np_truth (map (\<lambda>r. f64_ge (lambda_val r) l) (filter (\<lambda>r. child r = q) t)) = Inr False"
    using eq IH by (auto split: if_splits sum.splits)
qed

text \<open>
  The tuple of lines 197 to 220, in the order the source writes it: the parent, the
  child \<open>- 1\<close>, the number 1, and the lambda.
\<close>

lemma new_tree_row_content:
  assumes "new_tree_row row_with_child tree neighbor_indices neighbor_distances core_distances
      min_samples = Some (Inr (p, c, s, l))"
  shows "c = - 1 \<and> s = 1 \<and>
    (\<exists>tree_root nearest_neighbor lam neighbor_tree_row.
       np_min (map parent tree) = Inr tree_root \<and>
       find_neighbor_and_lambda neighbor_indices neighbor_distances core_distances min_samples =
         Inr (nearest_neighbor, lam) \<and>
       row_with_child tree nearest_neighbor = Inr neighbor_tree_row \<and>
       (if f64_le (lambda_val neighbor_tree_row) lam
        then p = parent neighbor_tree_row \<and> l = lambda_val neighbor_tree_row
        else l = lam \<and> ascend tree tree_root lam (parent neighbor_tree_row) = Some (Inr p)))"
  using assms unfolding new_tree_row_def
  by (auto split: sum.splits prod.splits option.splits if_splits)

text \<open>
  Line 222 never yields an array: concatenating the records with four floats is a
  TypeError, whatever the tree and the query.
\<close>

lemma extend_never_returns:
  "extend_condensed_tree row_with_child tree neighbor_indices neighbor_distances core_distances
     min_samples \<noteq> Some (Inr extended)"
  by (simp add: extend_condensed_tree_def np_append_def np_ravel_def
      split: option.splits sum.splits prod.splits)

text \<open>
  Claim C4. For a point at distance 4 of its neighbours the tuple is built as the claim
  has it (parent 4, the root; child \<open>- 1\<close>; 1; lambda one quarter), but it is not the
  record that is appended: flattened, it is four floats, and the call fails. No record
  with child size 1 and that lambda reaches the tree.
\<close>

theorem extension_of_example: "new_tree_row get_tree_row_with_child example_raw_tree [0, 1] [Fin 4, Fin 4]
      [Fin (1/2), Fin (1/2), Fin 1, Fin 1] 1 = Some (Inr (4, - 1, 1, Fin (1/4))) \<and>
    np_ravel (4, - 1, 1, Fin (1/4)) = FloatArray [Fin 4, Fin (- 1), Fin 1, Fin (1/4)] \<and>
    extend_condensed_tree get_tree_row_with_child example_raw_tree [0, 1] [Fin 4, Fin 4]
      [Fin (1/2), Fin (1/2), Fin 1, Fin 1] 1 = Some (Inl TypeError)"
  by (simp add: run_defs ascend.simps)

text \<open>
  Claim C5. The extension is to return the records of the tree followed by one new
  record. For a point at distance one quarter of its neighbours, which leaves with its
  neighbour (parent 5, lambda 2), the call returns no tree at all: it fails with
  TypeError.
\<close>

theorem extension_with_neighbor: "new_tree_row get_tree_row_with_child example_raw_tree [0, 1] [Fin (1/4), Fin (1/4)]
      [Fin (1/2), Fin (1/2), Fin 1, Fin 1] 1 = Some (Inr (5, - 1, 1, Fin 2)) \<and>
    extend_condensed_tree get_tree_row_with_child example_raw_tree [0, 1] [Fin (1/4), Fin (1/4)]
      [Fin (1/2), Fin (1/2), Fin 1, Fin 1] 1 = Some (Inl TypeError)"
  by (simp add: run_defs ascend.simps)

section \<open>The constructor of the prediction data\<close>

text \<open>
  A walk down the cluster tree that ends returns at least the cluster it started from.
\<close>

lemma clusters_below_loop_nonempty:
  assumes "clusters_below_loop cluster_tree result to_process = Some r"
  shows "(result \<noteq> [] \<or> to_process \<noteq> []) \<longrightarrow> r \<noteq> []"
proof (rule clusters_below_loop.raw_induct
    [where P = "\<lambda>ct res tp y. (res \<noteq> [] \<or> tp \<noteq> []) \<longrightarrow> y \<noteq> []", OF _ assms])
  fix loop :: "tree_row list \<Rightarrow> int list \<Rightarrow> int list \<Rightarrow> int list option"
  fix ct :: "tree_row list" and res tp y :: "int list"
  assume IH: "\<And>ct' res' tp' y'. loop ct' res' tp' = Some y' \<Longrightarrow>
      (res' \<noteq> [] \<or> tp' \<noteq> []) \<longrightarrow> y' \<noteq> []"
  assume eq: "(if tp = [] then Some res
      else loop ct (res @ tp) (map child (filter (\<lambda>r. parent r \<in> set tp) ct))) = Some y"
  show "(res \<noteq> [] \<or> tp \<noteq> []) \<longrightarrow> y \<noteq> []"
  proof (cases "tp = []")
    case True
    then show ?thesis using eq by auto
  next
    case False
    then have "loop ct (res @ tp) (map child (filter (\<lambda>r. parent r \<in> set tp) ct)) = Some y"
      using eq by simp
    moreover have "res @ tp \<noteq> []" using False by simp
    ultimately show ?thesis using IH by blast
  qed
qed

lemma clusters_below_nonempty: "clusters_below cluster_tree cluster = Some subs \<Longrightarrow> subs \<noteq> []"
  unfolding clusters_below_def using clusters_below_loop_nonempty by blast

text \<open>
  The body of the inner loop fails at its first round, and so do the loops around it.
\<close>

lemma sub_cluster_body_fails: "\<exists>e. sub_cluster_body leaf_max_lambdas cluster state sub_cluster = Inl e"
  by (cases state) (simp add: sub_cluster_body_def split: option.splits)

lemma for_each_fails:
  assumes "xs \<noteq> []" "\<And>s x. \<exists>e. body s x = Some (Inl e)"
  shows "\<exists>e. for_each body xs s = Some (Inl e)"
proof -
  obtain x rest where xs: "xs = x # rest" using assms(1) by (cases xs) auto
  obtain e where "body s x = Some (Inl e)" using assms(2) by blast
  then show ?thesis by (simp add: xs)
qed

lemma cluster_body_never_returns:
  "cluster_body leaf_max_lambdas raw_condensed_tree cluster_tree state cluster \<noteq> Some (Inr state')"
proof -
  obtain cluster_map max_lambdas where st: "state = (cluster_map, max_lambdas)" by (cases state)
  show ?thesis
  proof (cases "np_max (map lambda_val (filter (\<lambda>r. parent r = cluster) raw_condensed_tree))")
    case (Inl e)
    then show ?thesis by (simp add: cluster_body_def st)
  next
    case (Inr m)
    show ?thesis
    proof (cases "clusters_below cluster_tree cluster")
      case None
      then show ?thesis using Inr by (simp add: cluster_body_def st)
    next
      case (Some subs)
      then have "subs \<noteq> []" by (rule clusters_below_nonempty)
      then obtain e where "for_each (\<lambda>s sub_cluster. Some (sub_cluster_body leaf_max_lambdas cluster s sub_cluster))
          subs (cluster_map, max_lambdas(cluster \<mapsto> m)) = Some (Inl e)"
        using for_each_fails [of subs "\<lambda>s sub_cluster. Some (sub_cluster_body leaf_max_lambdas cluster s sub_cluster)"]
          sub_cluster_body_fails by fastforce
      then show ?thesis using Inr Some by (simp add: cluster_body_def st)
    qed
  qed
qed

lemma collect_clusters_never_returns:
  "collect_clusters leaf_max_lambdas raw_condensed_tree cluster_tree cluster_map selected_clusters
     \<noteq> Some (Inr pd)"
  by (simp add: collect_clusters_def split: option.splits sum.splits)

text \<open>
  When the collaborators answer, the failure is the IndexError of line 98.
\<close>

lemma prediction_data_index_error:
  assumes "tree_type_map KDTree BallTree tree_type = Some make_tree"
    "make_tree data metric = Inr tree" "tree data min_samples = Inr (distances, indices)"
    "shape1 distances \<noteq> 0" "select_clusters condensed_tree = Inr selected_clusters"
    "to_numpy condensed_tree = Inr raw_condensed_tree"
  shows "PredictionData_init KDTree BallTree data condensed_tree min_samples tree_type metric
      = Some (Inl IndexError)"
  using assms
  by (simp add: PredictionData_init_def leaf_max_lambdas_loop_def np_getitem_2d_def
      np_last_column_def Let_def)

text \<open>
  Claim C6. The constructor never completes: whatever its arguments, it ends in an
  exception (line 98 indexes the one-dimensional cluster tree with two subscripts).
  The loop of lines 102 to 115 could not complete either: the body for a selected
  cluster never returns normally, and the last line reads the unbound name
  \<^verbatim>\<open>exemplars\<close>.
\<close>

theorem prediction_data_never_built:
  "(\<exists>e. PredictionData_init KDTree BallTree data condensed_tree min_samples tree_type metric
      = Some (Inl e)) \<and>
   cluster_body leaf_max_lambdas raw_condensed_tree cluster_tree state cluster \<noteq> Some (Inr state') \<and>
   collect_clusters leaf_max_lambdas raw_condensed_tree cluster_tree cluster_map selected_clusters
     \<noteq> Some (Inr pd)"
proof -
  have "\<exists>e. PredictionData_init KDTree BallTree data condensed_tree min_samples tree_type metric
      = Some (Inl e)"
    by (simp add: PredictionData_init_def leaf_max_lambdas_loop_def np_getitem_2d_def Let_def
        split: option.splits sum.splits prod.splits)
  then show ?thesis using cluster_body_never_returns collect_clusters_never_returns by blast
qed

text \<open>
  On the first hierarchy, with a space tree that answers, the exception is IndexError.
\<close>

theorem prediction_data_never_built_witness:
  "(\<exists>e. PredictionData_init (\<lambda>d m. Inr example_query) (\<lambda>d m. Inr example_query) example_data
       example_condensed_tree 1 ''kdtree'' ''euclidean'' = Some (Inl e)) \<and>
   PredictionData_init (\<lambda>d m. Inr example_query) (\<lambda>d m. Inr example_query) example_data
       example_condensed_tree 1 ''kdtree'' ''euclidean'' = Some (Inl IndexError)"
  using prediction_data_never_built
    [of "\<lambda>d m. Inr example_query" "\<lambda>d m. Inr example_query" example_data example_condensed_tree 1
      "''kdtree''" "''euclidean''"]
  by (simp add: PredictionData_init_def tree_type_map_def np_last_column_def
      leaf_max_lambdas_loop_def np_getitem_2d_def example_defs example_condensed_tree_def Let_def)

section \<open>The batch predictor\<close>

text \<open>
  No step after the two checks raises one of the two errors of the checks, unless the
  space tree or the row lookup does.
\<close>

lemma structural_errorsD:
  "e \<in> structural_errors \<Longrightarrow> e = ValueError no_prediction_data \<or> e = ValueError dimension_mismatch"
  by (simp add: structural_errors_def)

lemma np_getitem_not_structural: "np_getitem a i = Inl e \<Longrightarrow> e \<notin> structural_errors"
  using np_getitem_cases [of a i] by (auto simp: structural_errors_def)

lemma resolver_not_structural:
  assumes "find_neighbor_and_lambda neighbor_indices neighbor_distances core_distances min_samples
     = Inl e"
  shows "e \<notin> structural_errors"
proof -
  have "e = IndexError \<or> e = ValueError ''all the input array dimensions must match exactly'' \<or>
      e = ValueError ''attempt to get argmin of an empty sequence''"
    using assms np_take_cases [of core_distances neighbor_indices]
      np_getitem_cases [of neighbor_distances min_samples]
    by (auto simp: find_neighbor_and_lambda_def mr_distances_def np_vstack3_max_def np_argmin_def
        split: sum.splits list.splits if_splits)
  then show ?thesis
    by (auto simp: structural_errors_def no_prediction_data_def dimension_mismatch_def)
qed

lemma np_min_not_structural: "np_min a = Inl e \<Longrightarrow> e \<notin> structural_errors"
  by (auto simp: np_min_def structural_errors_def no_prediction_data_def dimension_mismatch_def
      split: list.splits)

lemma np_truth_not_structural: "np_truth bs = Inl e \<Longrightarrow> e \<notin> structural_errors"
  by (auto simp: np_truth_def structural_errors_def no_prediction_data_def dimension_mismatch_def
      split: list.splits if_splits)

lemma ascend_not_structural:
  assumes "ascend tree tree_root lam potential_cluster = Some r"
  shows "\<forall>e. r = Inl e \<longrightarrow> e \<notin> structural_errors"
proof (rule ascend.raw_induct
    [where P = "\<lambda>t root l pc y. \<forall>e. y = Inl e \<longrightarrow> e \<notin> structural_errors", OF _ assms])
  fix loop :: "tree_row list \<Rightarrow> int \<Rightarrow> f64 \<Rightarrow> int \<Rightarrow> (py_error + int) option"
  fix t :: "tree_row list" and root pc :: int and l :: f64 and y :: "py_error + int"
  assume IH: "\<And>t' root' l' pc' y'. loop t' root' l' pc' = Some y' \<Longrightarrow>
      \<forall>e. y' = Inl e \<longrightarrow> e \<notin> structural_errors"
  assume eq: "(if root < pc
      then case np_truth (map (\<lambda>r. f64_ge (lambda_val r) l) (filter (\<lambda>r. child r = pc) t)) of
           Inl e \<Rightarrow> Some (Inl e)
           | Inr b \<Rightarrow>
               if b
               then case np_getitem (map parent (filter (\<lambda>r. child r = pc) t)) 0 of
                    Inl e \<Rightarrow> Some (Inl e)
                    | Inr p \<Rightarrow> loop t root l p
               else Some (Inr pc)
      else Some (Inr pc)) = Some y"
  show "\<forall>e. y = Inl e \<longrightarrow> e \<notin> structural_errors"
    using eq IH
    by (auto split: if_splits sum.splits
        dest: np_truth_not_structural np_getitem_not_structural)
qed

lemma label_and_probability_not_structural:
  "label_and_probability cluster_map max_lambdas potential_cluster lam = Inl e \<Longrightarrow>
     e \<notin> structural_errors"
  by (auto simp: label_and_probability_def Let_def structural_errors_def
      split: option.splits if_splits)

lemma enclosing_node_not_structural:
  assumes "enclosing_node row_with_child tree cluster_tree neighbor_indices
       neighbor_distances core_distances min_samples = Some (Inl e)"
    "\<And>t c e'. row_with_child t c = Inl e' \<Longrightarrow> e' \<notin> structural_errors"
  shows "e \<notin> structural_errors"
  using assms(1) unfolding enclosing_node_def
  by (auto split: option.splits sum.splits prod.splits if_splits
      dest: np_min_not_structural resolver_not_structural ascend_not_structural assms(2))

lemma find_cluster_and_probability_not_structural:
  assumes "find_cluster_and_probability row_with_child tree cluster_tree neighbor_indices
       neighbor_distances core_distances cluster_map max_lambdas min_samples = Some (Inl e)"
    "\<And>t c e'. row_with_child t c = Inl e' \<Longrightarrow> e' \<notin> structural_errors"
  shows "e \<notin> structural_errors"
  using assms(1) unfolding find_cluster_and_probability_def
  by (auto split: option.splits sum.splits prod.splits
      dest: enclosing_node_not_structural [OF _ assms(2)] label_and_probability_not_structural)

lemma predict_points_not_structural:
  assumes "\<And>t c e'. row_with_child t c = Inl e' \<Longrightarrow> e' \<notin> structural_errors"
  shows "predict_points row_with_child clusterer pd min_samples neighbor_distances neighbor_indices
       todo labels probabilities = Some (Inl e) \<Longrightarrow> e \<notin> structural_errors"
proof (induction todo arbitrary: labels probabilities)
  case Nil
  then show ?case by simp
next
  case (Cons i todo)
  show ?case
    using Cons.prems Cons.IH
    by (auto split: option.splits sum.splits prod.splits
        dest: np_getitem_not_structural find_cluster_and_probability_not_structural [OF _ assms])
qed

lemma predict_checked_not_structural:
  assumes "\<And>t c e'. row_with_child t c = Inl e' \<Longrightarrow> e' \<notin> structural_errors"
    "\<And>e'. pd_tree pd points_to_predict (2 * min_samples_or_size clusterer) = Inl e' \<Longrightarrow>
       e' \<notin> structural_errors"
    "predict_checked row_with_child clusterer pd points_to_predict = Some (Inl e)"
  shows "e \<notin> structural_errors"
proof (cases "pd_tree pd points_to_predict (2 * min_samples_or_size clusterer)")
  case (Inl e')
  then have "e' = e" using assms(3) by (simp add: predict_checked_def Let_def)
  then show ?thesis using assms(2) Inl by simp
next
  case (Inr found)
  obtain neighbor_distances neighbor_indices where found: "found = (neighbor_distances, neighbor_indices)"
    by (cases found)
  have run: "predict_points row_with_child clusterer pd (min_samples_or_size clusterer)
      neighbor_distances neighbor_indices [0..<length (rows points_to_predict)] [] [] = Some (Inl e)"
    using assms(3) Inr found by (simp add: predict_checked_def Let_def)
  show ?thesis
    using predict_points_not_structural [of row_with_child, OF _ run] assms(1) by blast
qed

text \<open>
  Claim C9. Without prediction data \<^verbatim>\<open>approximate_predict\<close> fails with the error of
  line 340, and with prediction data of another dimension than the points with the
  error of line 348, whatever the space tree, the row lookup and the points are: no
  neighbour has been looked up by then. When both checks pass the result is that of the
  query and the loop over the points, and it is neither of the two errors unless the
  space tree or the row lookup raises one.
\<close>

theorem approximate_predict_fails_fast:
  "(hd_prediction_data clusterer = None \<longrightarrow>
      approximate_predict row_with_child clusterer points_to_predict =
        Some (Inl (ValueError no_prediction_data))) \<and>
   (hd_prediction_data clusterer = Some pd \<and>
    shape1 points_to_predict \<noteq> shape1 (pd_raw_data pd) \<longrightarrow>
      approximate_predict row_with_child clusterer points_to_predict =
        Some (Inl (ValueError dimension_mismatch))) \<and>
   (hd_prediction_data clusterer = Some pd \<and>
    shape1 points_to_predict = shape1 (pd_raw_data pd) \<longrightarrow>
      approximate_predict row_with_child clusterer points_to_predict =
        predict_checked row_with_child clusterer pd points_to_predict \<and>
      ((\<forall>t c e. row_with_child t c = Inl e \<longrightarrow> e \<notin> structural_errors) \<and>
       (\<forall>e. pd_tree pd points_to_predict (2 * min_samples_or_size clusterer) = Inl e \<longrightarrow>
          e \<notin> structural_errors) \<longrightarrow>
       (\<forall>e. approximate_predict row_with_child clusterer points_to_predict = Some (Inl e) \<longrightarrow>
          e \<notin> structural_errors)))"
proof (intro conjI impI allI)
  assume "hd_prediction_data clusterer = None"
  then show "approximate_predict row_with_child clusterer points_to_predict =
        Some (Inl (ValueError no_prediction_data))"
    by (simp add: approximate_predict_def)
next
  assume "hd_prediction_data clusterer = Some pd \<and>
    shape1 points_to_predict \<noteq> shape1 (pd_raw_data pd)"
  then show "approximate_predict row_with_child clusterer points_to_predict =
        Some (Inl (ValueError dimension_mismatch))"
    by (simp add: approximate_predict_def)
next
  assume "hd_prediction_data clusterer = Some pd \<and>
    shape1 points_to_predict = shape1 (pd_raw_data pd)"
  then show "approximate_predict row_with_child clusterer points_to_predict =
        predict_checked row_with_child clusterer pd points_to_predict"
    by (simp add: approximate_predict_def)
next
  fix e
  assume ok: "hd_prediction_data clusterer = Some pd \<and>
    shape1 points_to_predict = shape1 (pd_raw_data pd)"
  assume ext: "(\<forall>t c e. row_with_child t c = Inl e \<longrightarrow> e \<notin> structural_errors) \<and>
       (\<forall>e. pd_tree pd points_to_predict (2 * min_samples_or_size clusterer) = Inl e \<longrightarrow>
          e \<notin> structural_errors)"
  assume res: "approximate_predict row_with_child clusterer points_to_predict = Some (Inl e)"
  have "predict_checked row_with_child clusterer pd points_to_predict = Some (Inl e)"
    using ok res by (simp add: approximate_predict_def)
  then show "e \<notin> structural_errors"
    using ext predict_checked_not_structural [of row_with_child pd points_to_predict clusterer e]
    by blast
qed

text \<open>
  The three cases on the first hierarchy: no prediction data, points of dimension 3
  against data of dimension 2, and one point of dimension 2.
\<close>

theorem approximate_predict_fails_fast_witness:
  "approximate_predict get_tree_row_with_child (example_clusterer\<lparr>hd_prediction_data := None\<rparr>)
      \<lparr>shape1 = 2, rows = [[Fin 0, Fin 1]]\<rparr> = Some (Inl (ValueError no_prediction_data)) \<and>
   approximate_predict get_tree_row_with_child example_clusterer
      \<lparr>shape1 = 3, rows = [[Fin 0, Fin 1, Fin 0]]\<rparr> = Some (Inl (ValueError dimension_mismatch)) \<and>
   approximate_predict get_tree_row_with_child example_clusterer
      \<lparr>shape1 = 2, rows = [[Fin 0, Fin 1]]\<rparr> = Some (Inr ([0], [Fin (1/2)]))"
proof -
  have a: "approximate_predict get_tree_row_with_child (example_clusterer\<lparr>hd_prediction_data := None\<rparr>)
      \<lparr>shape1 = 2, rows = [[Fin 0, Fin 1]]\<rparr> = Some (Inl (ValueError no_prediction_data))"
    using approximate_predict_fails_fast
      [of "example_clusterer\<lparr>hd_prediction_data := None\<rparr>" get_tree_row_with_child
        "\<lparr>shape1 = 2, rows = [[Fin 0, Fin 1]]\<rparr>"]
    by simp
  have b: "approximate_predict get_tree_row_with_child example_clusterer
      \<lparr>shape1 = 3, rows = [[Fin 0, Fin 1, Fin 0]]\<rparr> = Some (Inl (ValueError dimension_mismatch))"
    using approximate_predict_fails_fast
      [of example_clusterer get_tree_row_with_child "\<lparr>shape1 = 3, rows = [[Fin 0, Fin 1, Fin 0]]\<rparr>"
        example_prediction_data]
    by (simp add: example_defs)
  have "approximate_predict get_tree_row_with_child example_clusterer
      \<lparr>shape1 = 2, rows = [[Fin 0, Fin 1]]\<rparr> =
    predict_checked get_tree_row_with_child example_clusterer example_prediction_data
      \<lparr>shape1 = 2, rows = [[Fin 0, Fin 1]]\<rparr>"
    using approximate_predict_fails_fast
      [of example_clusterer get_tree_row_with_child "\<lparr>shape1 = 2, rows = [[Fin 0, Fin 1]]\<rparr>"
        example_prediction_data]
    by (simp add: example_defs)
  also have "\<dots> = Some (Inr ([0], [Fin (1/2)]))"
    by (simp add: predict_checked_def min_samples_or_size_def example_defs run_defs ascend.simps)
  finally show ?thesis using a b by simp
qed

end
